theory Spec2Isabelle
  imports Main
begin

section \<open>Python strings\<close>

text \<open>
  A Python \<^verbatim>\<open>str\<close> is modelled by the bytes of its UTF-8 encoding, a \<^typ>\<open>string\<close>.
  Splitting at an ASCII separator, the prefix test and the substring test give the same
  answers on the encoding as on the text.

  The characters that \<^verbatim>\<open>str.isspace\<close> accepts, by the length of their encoding: U+0009 to
  U+000D, U+001C to U+0020; U+0085 and U+00A0; U+1680, U+2000 to U+200A, U+2028, U+2029,
  U+202F, U+205F and U+3000.
\<close>

definition space1 :: "char \<Rightarrow> bool" where
  "space1 a = (of_char a \<in> {9, 10, 11, 12, 13, 28, 29, 30, 31, 32 :: nat})"

definition space2 :: "char \<Rightarrow> char \<Rightarrow> bool" where
  "space2 a b = (of_char a = (0xC2 :: nat) \<and> of_char b \<in> {0x85, 0xA0 :: nat})"

definition space3 :: "char \<Rightarrow> char \<Rightarrow> char \<Rightarrow> bool" where
  "space3 a b c =
     (of_char a = (0xE1 :: nat) \<and> of_char b = (0x9A :: nat) \<and> of_char c = (0x80 :: nat)
      \<or> of_char a = (0xE2 :: nat) \<and> of_char b = (0x80 :: nat) \<and>
          (0x80 \<le> (of_char c :: nat) \<and> (of_char c :: nat) \<le> 0x8A \<or>
           of_char c \<in> {0xA8, 0xA9, 0xAF :: nat})
      \<or> of_char a = (0xE2 :: nat) \<and> of_char b = (0x81 :: nat) \<and> of_char c = (0x9F :: nat)
      \<or> of_char a = (0xE3 :: nat) \<and> of_char b = (0x80 :: nat) \<and> of_char c = (0x80 :: nat))"

fun lstrip :: "string \<Rightarrow> string" where
  \<comment> \<open>\<^verbatim>\<open>s.lstrip()\<close>\<close>
  "lstrip [] = []"
| "lstrip [a] = (if space1 a then [] else [a])"
| "lstrip [a, b] = (if space1 a then lstrip [b] else if space2 a b then [] else [a, b])"
| "lstrip (a # b # c # s) =
     (if space1 a then lstrip (b # c # s)
      else if space2 a b then lstrip (c # s)
      else if space3 a b c then lstrip s
      else a # b # c # s)"

fun rstrip_reversed :: "string \<Rightarrow> string" where
  \<comment> \<open>\<^verbatim>\<open>s.rstrip()\<close> on the reversed string: the last byte comes first\<close>
  "rstrip_reversed [] = []"
| "rstrip_reversed [a] = (if space1 a then [] else [a])"
| "rstrip_reversed [b, a] =
     (if space1 b then rstrip_reversed [a] else if space2 a b then [] else [b, a])"
| "rstrip_reversed (c # b # a # s) =
     (if space1 c then rstrip_reversed (b # a # s)
      else if space2 b c then rstrip_reversed (a # s)
      else if space3 a b c then rstrip_reversed s
      else c # b # a # s)"

definition strip :: "string \<Rightarrow> string" where
  \<comment> \<open>\<^verbatim>\<open>s.strip()\<close>\<close>
  "strip s = rev (rstrip_reversed (rev (lstrip s)))"

fun split :: "char \<Rightarrow> string \<Rightarrow> string list" where
  \<comment> \<open>\<^verbatim>\<open>s.split(sep)\<close> for a one-character separator: \<^verbatim>\<open>''.split(',') == ['']\<close>\<close>
  "split sep [] = [[]]"
| "split sep (c # cs) =
     (if c = sep then [] # split sep cs
      else (case split sep cs of
              [] \<Rightarrow> [[c]]
            | w # ws \<Rightarrow> (c # w) # ws))"

definition startswith :: "string \<Rightarrow> string \<Rightarrow> bool" where
  \<comment> \<open>\<^verbatim>\<open>s.startswith(p)\<close>\<close>
  "startswith s p = (take (length p) s = p)"

fun contains :: "string \<Rightarrow> string \<Rightarrow> bool" where
  \<comment> \<open>\<^verbatim>\<open>p in s\<close> for two strings: \<open>p\<close> occurs in \<open>s\<close> as a substring\<close>
  "contains p [] = (p = [])"
| "contains p (c # cs) = (startswith (c # cs) p \<or> contains p cs)"

type_synonym environ = "string \<rightharpoonup> string"

definition os_getenv :: "environ \<Rightarrow> string \<Rightarrow> string \<Rightarrow> string" where
  \<comment> \<open>\<^verbatim>\<open>os.getenv(name, default)\<close>\<close>
  "os_getenv environ name dflt = (case environ name of None \<Rightarrow> dflt | Some v \<Rightarrow> v)"

section \<open>InstrumentOptions\<close>

text \<open>
  The object after \<^verbatim>\<open>InstrumentOptions.__init__\<close>: \<^verbatim>\<open>functions or []\<close> and
  \<^verbatim>\<open>exclude_functions or []\<close> have already turned \<^verbatim>\<open>None\<close> into the empty list.
  The attribute \<^verbatim>\<open>functions\<close> is the field \<open>opt_functions\<close> (the name \<open>functions\<close> is
  reserved in Isabelle).
\<close>

record InstrumentOptions =
  level :: int
  capture_params :: bool
  capture_return :: bool
  capture_vars :: bool
  capture_async :: bool
  opt_functions :: "string list"
  exclude_functions :: "string list"

section \<open>FunctionWrapper: the instrumentation policy\<close>

record FunctionWrapper =
  self_file_path :: string
  self_options :: InstrumentOptions
  self_functions_wrapped :: nat
  self_exclude_functions :: "string list"

definition get_excluded_functions :: "environ \<Rightarrow> InstrumentOptions \<Rightarrow> string list" where
  \<comment> \<open>\<^verbatim>\<open>FunctionWrapper._get_excluded_functions\<close>\<close>
  "get_excluded_functions environ opts =
     (let excluded = exclude_functions opts;
          env_excluded = os_getenv environ ''TRACING_EXCLUDE_FUNCTIONS'' '''';
          excluded = (if env_excluded \<noteq> []
                      then excluded @ map strip (split CHR '','' env_excluded)
                      else excluded)
      in excluded @ [''__init__'', ''__str__'', ''__repr__'', ''__eq__''])"

definition FunctionWrapper_init :: "environ \<Rightarrow> string \<Rightarrow> InstrumentOptions \<Rightarrow> FunctionWrapper" where
  \<comment> \<open>\<^verbatim>\<open>FunctionWrapper.__init__\<close>\<close>
  "FunctionWrapper_init environ file_path opts =
     \<lparr> self_file_path = file_path,
       self_options = opts,
       self_functions_wrapped = 0,
       self_exclude_functions = get_excluded_functions environ opts \<rparr>"

fun some_prefix_matches :: "string \<Rightarrow> string list \<Rightarrow> bool" where
  \<comment> \<open>the loop \<^verbatim>\<open>for prefix in ...: if func_name.startswith(prefix.strip()): return False\<close>;
      \<open>True\<close> when the loop returns\<close>
  "some_prefix_matches func_name [] = False"
| "some_prefix_matches func_name (p # ps) =
     (if startswith func_name (strip p) then True else some_prefix_matches func_name ps)"

definition should_instrument :: "environ \<Rightarrow> FunctionWrapper \<Rightarrow> string \<Rightarrow> bool" where
  \<comment> \<open>\<^verbatim>\<open>FunctionWrapper._should_instrument\<close>\<close>
  "should_instrument environ self func_name =
     (if func_name \<in> set (self_exclude_functions self) then False
      else if opt_functions (self_options self) \<noteq> [] then func_name \<in> set (opt_functions (self_options self))
      else
        (let env_prefixes = os_getenv environ ''TRACING_EXCLUDE_FUNCTION_PREFIXES'' ''''
         in if env_prefixes \<noteq> [] \<and> some_prefix_matches func_name (split CHR '','' env_prefixes)
            then False
            else True))"

section \<open>Syntax trees\<close>

text \<open>
  The nodes of Python's \<^verbatim>\<open>ast\<close> module that the two transformers construct or treat
  specially, and the compound statements through which \<^verbatim>\<open>generic_visit\<close> reaches nested
  statements. Source locations, annotations, default values and type comments are left out:
  no transformer reads or writes them. An \<^verbatim>\<open>ast.arg\<close> is its name. The asynchronous
  forms of \<^verbatim>\<open>for\<close> and \<^verbatim>\<open>with\<close>, \<^verbatim>\<open>match\<close> and \<^verbatim>\<open>try\<close> with
  \<^verbatim>\<open>except*\<close> are not among the nodes: both transformers treat them as they treat the
  compound statements that are.
\<close>

datatype expr_context = Load | Store | Del

datatype pyconst = ConstStr string | ConstInt int | ConstBool bool | ConstNone

datatype expr =
    Name string expr_context
  | Constant pyconst
  | Attribute expr string expr_context
  | Call expr "expr list" "(string option \<times> expr) list"
  | Dict "expr list" "expr list"
  | BinOp expr string expr

datatype arguments =
  Arguments (posonlyargs: "string list") (args: "string list") (vararg: "string option")
            (kwonlyargs: "string list") (kwarg: "string option")

datatype stmt =
    FunctionDef string arguments "stmt list" "expr list"
  | AsyncFunctionDef string arguments "stmt list" "expr list"
  | ClassDef string "expr list" "stmt list" "expr list"
  | Return "expr option"
  | Assign "expr list" expr
  | Expr expr
  | If expr "stmt list" "stmt list"
  | For expr expr "stmt list" "stmt list"
  | While expr "stmt list" "stmt list"
  | With "(expr \<times> expr option) list" "stmt list"
  | Try "stmt list" "excepthandler list" "stmt list" "stmt list"
  | Raise "expr option" "expr option"
  | Pass
and excepthandler =
    ExceptHandler "expr option" "string option" "stmt list"

datatype module = Module "stmt list"

definition tracer_call :: "string \<Rightarrow> expr list \<Rightarrow> expr" where
  \<comment> \<open>\<^verbatim>\<open>ast.Call(func=ast.Attribute(value=ast.Name(id='__tracer', ctx=ast.Load()), attr=...,
      ctx=ast.Load()), args=..., keywords=[])\<close>\<close>
  "tracer_call attr arguments =
     Call (Attribute (Name ''__tracer'' Load) attr Load) arguments []"

section \<open>ReturnTransformer\<close>

definition visit_Return :: "expr option \<Rightarrow> stmt" where
  \<comment> \<open>\<^verbatim>\<open>ReturnTransformer.visit_Return\<close>, on the \<^verbatim>\<open>value\<close> of the \<^verbatim>\<open>ast.Return\<close> node.
      \<^verbatim>\<open>if node.value:\<close> holds for every node object, so only \<^verbatim>\<open>None\<close> takes the other
      branch. The method does not call \<^verbatim>\<open>generic_visit\<close>.\<close>
  "visit_Return v =
     (case v of
        Some e \<Rightarrow> Return (Some (tracer_call ''end_function'' [Name ''__ctx'' Load, e]))
      | None \<Rightarrow> Return None)"

text \<open>
  \<^verbatim>\<open>ReturnTransformer.visit\<close>, inherited from \<^verbatim>\<open>ast.NodeTransformer\<close>: a
  \<^verbatim>\<open>Return\<close> node goes to \<^verbatim>\<open>visit_Return\<close>; the class defines no other \<^verbatim>\<open>visit_*\<close>
  method, so every other node goes to \<^verbatim>\<open>generic_visit\<close>, which visits the statements of
  each field in turn and puts the results back. Expressions hold no statements and are
  returned as they are.
\<close>

primrec ReturnTransformer_visit :: "stmt \<Rightarrow> stmt"
  and ReturnTransformer_visit_handler :: "excepthandler \<Rightarrow> excepthandler" where
  "ReturnTransformer_visit (Return v) = visit_Return v"
| "ReturnTransformer_visit (FunctionDef name a body decorator_list) =
     FunctionDef name a (map ReturnTransformer_visit body) decorator_list"
| "ReturnTransformer_visit (AsyncFunctionDef name a body decorator_list) =
     AsyncFunctionDef name a (map ReturnTransformer_visit body) decorator_list"
| "ReturnTransformer_visit (ClassDef name bases body decorator_list) =
     ClassDef name bases (map ReturnTransformer_visit body) decorator_list"
| "ReturnTransformer_visit (Assign targets v) = Assign targets v"
| "ReturnTransformer_visit (Expr v) = Expr v"
| "ReturnTransformer_visit (If test body orelse) =
     If test (map ReturnTransformer_visit body) (map ReturnTransformer_visit orelse)"
| "ReturnTransformer_visit (For target iter body orelse) =
     For target iter (map ReturnTransformer_visit body) (map ReturnTransformer_visit orelse)"
| "ReturnTransformer_visit (While test body orelse) =
     While test (map ReturnTransformer_visit body) (map ReturnTransformer_visit orelse)"
| "ReturnTransformer_visit (With items body) = With items (map ReturnTransformer_visit body)"
| "ReturnTransformer_visit (Try body handlers orelse finalbody) =
     Try (map ReturnTransformer_visit body) (map ReturnTransformer_visit_handler handlers)
         (map ReturnTransformer_visit orelse) (map ReturnTransformer_visit finalbody)"
| "ReturnTransformer_visit (Raise exc cause) = Raise exc cause"
| "ReturnTransformer_visit Pass = Pass"
| "ReturnTransformer_visit_handler (ExceptHandler type name body) =
     ExceptHandler type name (map ReturnTransformer_visit body)"

section \<open>FunctionWrapper: the tree rewriter\<close>

definition transform_returns :: "stmt list \<Rightarrow> stmt list" where
  \<comment> \<open>\<^verbatim>\<open>FunctionWrapper._transform_returns\<close>\<close>
  "transform_returns body = map ReturnTransformer_visit body"

definition create_params_dict :: "arguments \<Rightarrow> expr" where
  \<comment> \<open>\<^verbatim>\<open>FunctionWrapper._create_params_dict\<close>: only \<^verbatim>\<open>args.args\<close> is read\<close>
  "create_params_dict a =
     Dict (map (\<lambda>arg. Constant (ConstStr arg)) (args a)) (map (\<lambda>arg. Name arg Load) (args a))"

definition start_call :: "FunctionWrapper \<Rightarrow> string \<Rightarrow> arguments \<Rightarrow> stmt" where
  \<comment> \<open>\<^verbatim>\<open>__ctx = __tracer.start_function('name', 'file.py', params)\<close>\<close>
  "start_call self name a =
     Assign [Name ''__ctx'' Store]
       (tracer_call ''start_function''
          [Constant (ConstStr name), Constant (ConstStr (self_file_path self)),
           create_params_dict a])"

definition except_handler :: excepthandler where
  \<comment> \<open>\<^verbatim>\<open>except Exception as error: __tracer.error_function(__ctx, error); raise error\<close>\<close>
  "except_handler =
     ExceptHandler (Some (Name ''Exception'' Load)) (Some ''error'')
       [Expr (tracer_call ''error_function'' [Name ''__ctx'' Load, Name ''error'' Load]),
        Raise (Some (Name ''error'' Load)) None]"

definition wrap_minimal :: "FunctionWrapper \<Rightarrow> string \<Rightarrow> arguments \<Rightarrow> stmt list \<Rightarrow> expr list \<Rightarrow> stmt" where
  \<comment> \<open>\<^verbatim>\<open>FunctionWrapper._wrap_minimal\<close>, on the fields of the \<^verbatim>\<open>FunctionDef\<close> node\<close>
  "wrap_minimal self name a body decorator_list =
     (let enter_call = Expr (tracer_call ''enter''
                               [Constant (ConstStr name), Constant (ConstStr (self_file_path self))]);
          exit_call = Expr (tracer_call ''exit'' [Constant (ConstStr name)])
      in FunctionDef name a ([enter_call] @ body @ [exit_call]) decorator_list)"

definition wrap_standard :: "FunctionWrapper \<Rightarrow> string \<Rightarrow> arguments \<Rightarrow> stmt list \<Rightarrow> expr list \<Rightarrow> stmt" where
  \<comment> \<open>\<^verbatim>\<open>FunctionWrapper._wrap_standard\<close>\<close>
  "wrap_standard self name a body decorator_list =
     (let try_body = transform_returns body;
          try_except = Try try_body [except_handler] [] []
      in FunctionDef name a [start_call self name a, try_except] decorator_list)"

definition wrap_detailed :: "FunctionWrapper \<Rightarrow> string \<Rightarrow> arguments \<Rightarrow> stmt list \<Rightarrow> expr list \<Rightarrow> stmt" where
  \<comment> \<open>\<^verbatim>\<open>FunctionWrapper._wrap_detailed\<close>\<close>
  "wrap_detailed self name a body decorator_list = wrap_standard self name a body decorator_list"

definition wrap_async :: "FunctionWrapper \<Rightarrow> string \<Rightarrow> arguments \<Rightarrow> stmt list \<Rightarrow> expr list \<Rightarrow> stmt" where
  \<comment> \<open>\<^verbatim>\<open>FunctionWrapper._wrap_async\<close>\<close>
  "wrap_async self name a body decorator_list =
     (let try_body = transform_returns body;
          try_except = Try try_body [except_handler] [] []
      in AsyncFunctionDef name a [start_call self name a, try_except] decorator_list)"

definition visit_FunctionDef ::
  "environ \<Rightarrow> FunctionWrapper \<Rightarrow> string \<Rightarrow> arguments \<Rightarrow> stmt list \<Rightarrow> expr list \<Rightarrow> stmt \<times> FunctionWrapper" where
  \<comment> \<open>\<^verbatim>\<open>FunctionWrapper.visit_FunctionDef\<close>: the new node and the updated transformer. The
      method returns without calling \<^verbatim>\<open>generic_visit\<close>.\<close>
  "visit_FunctionDef environ self name a body decorator_list =
     (if \<not> should_instrument environ self name
      then (FunctionDef name a body decorator_list, self)
      else
        (let self = self\<lparr>self_functions_wrapped := self_functions_wrapped self + 1\<rparr>
         in if level (self_options self) = 0 then (FunctionDef name a body decorator_list, self)
            else if level (self_options self) = 1 then (wrap_minimal self name a body decorator_list, self)
            else if level (self_options self) = 2 then (wrap_standard self name a body decorator_list, self)
            else (wrap_detailed self name a body decorator_list, self)))"

definition visit_AsyncFunctionDef ::
  "environ \<Rightarrow> FunctionWrapper \<Rightarrow> string \<Rightarrow> arguments \<Rightarrow> stmt list \<Rightarrow> expr list \<Rightarrow> stmt \<times> FunctionWrapper" where
  \<comment> \<open>\<^verbatim>\<open>FunctionWrapper.visit_AsyncFunctionDef\<close>\<close>
  "visit_AsyncFunctionDef environ self name a body decorator_list =
     (if \<not> should_instrument environ self name
      then (AsyncFunctionDef name a body decorator_list, self)
      else
        (let self = self\<lparr>self_functions_wrapped := self_functions_wrapped self + 1\<rparr>
         in if level (self_options self) = 0 then (AsyncFunctionDef name a body decorator_list, self)
            else (wrap_async self name a body decorator_list, self)))"

text \<open>
  \<^verbatim>\<open>FunctionWrapper.visit\<close>: the two definition nodes go to their \<^verbatim>\<open>visit_*\<close> methods,
  every other node to \<^verbatim>\<open>generic_visit\<close>, which visits the child statements field by field,
  in order. The transformer object is threaded through the calls, since
  \<^verbatim>\<open>functions_wrapped\<close> is updated on the way.
\<close>

fun FunctionWrapper_visit :: "environ \<Rightarrow> FunctionWrapper \<Rightarrow> stmt \<Rightarrow> stmt \<times> FunctionWrapper"
  and FunctionWrapper_visit_list :: "environ \<Rightarrow> FunctionWrapper \<Rightarrow> stmt list \<Rightarrow> stmt list \<times> FunctionWrapper"
  and FunctionWrapper_visit_handler :: "environ \<Rightarrow> FunctionWrapper \<Rightarrow> excepthandler \<Rightarrow> excepthandler \<times> FunctionWrapper"
  and FunctionWrapper_visit_handlers :: "environ \<Rightarrow> FunctionWrapper \<Rightarrow> excepthandler list \<Rightarrow> excepthandler list \<times> FunctionWrapper"
where
  "FunctionWrapper_visit environ self (FunctionDef name a body decorator_list) =
     visit_FunctionDef environ self name a body decorator_list"
| "FunctionWrapper_visit environ self (AsyncFunctionDef name a body decorator_list) =
     visit_AsyncFunctionDef environ self name a body decorator_list"
| "FunctionWrapper_visit environ self (ClassDef name bases body decorator_list) =
     (let (body', self1) = FunctionWrapper_visit_list environ self body
      in (ClassDef name bases body' decorator_list, self1))"
| "FunctionWrapper_visit environ self (Return v) = (Return v, self)"
| "FunctionWrapper_visit environ self (Assign targets v) = (Assign targets v, self)"
| "FunctionWrapper_visit environ self (Expr v) = (Expr v, self)"
| "FunctionWrapper_visit environ self (If test body orelse) =
     (let (body', self1) = FunctionWrapper_visit_list environ self body;
          (orelse', self2) = FunctionWrapper_visit_list environ self1 orelse
      in (If test body' orelse', self2))"
| "FunctionWrapper_visit environ self (For target iter body orelse) =
     (let (body', self1) = FunctionWrapper_visit_list environ self body;
          (orelse', self2) = FunctionWrapper_visit_list environ self1 orelse
      in (For target iter body' orelse', self2))"
| "FunctionWrapper_visit environ self (While test body orelse) =
     (let (body', self1) = FunctionWrapper_visit_list environ self body;
          (orelse', self2) = FunctionWrapper_visit_list environ self1 orelse
      in (While test body' orelse', self2))"
| "FunctionWrapper_visit environ self (With items body) =
     (let (body', self1) = FunctionWrapper_visit_list environ self body
      in (With items body', self1))"
| "FunctionWrapper_visit environ self (Try body handlers orelse finalbody) =
     (let (body', self1) = FunctionWrapper_visit_list environ self body;
          (handlers', self2) = FunctionWrapper_visit_handlers environ self1 handlers;
          (orelse', self3) = FunctionWrapper_visit_list environ self2 orelse;
          (finalbody', self4) = FunctionWrapper_visit_list environ self3 finalbody
      in (Try body' handlers' orelse' finalbody', self4))"
| "FunctionWrapper_visit environ self (Raise exc cause) = (Raise exc cause, self)"
| "FunctionWrapper_visit environ self Pass = (Pass, self)"
| "FunctionWrapper_visit_list environ self [] = ([], self)"
| "FunctionWrapper_visit_list environ self (s # ss) =
     (let (s', self1) = FunctionWrapper_visit environ self s;
          (ss', self2) = FunctionWrapper_visit_list environ self1 ss
      in (s' # ss', self2))"
| "FunctionWrapper_visit_handler environ self (ExceptHandler type name body) =
     (let (body', self1) = FunctionWrapper_visit_list environ self body
      in (ExceptHandler type name body', self1))"
| "FunctionWrapper_visit_handlers environ self [] = ([], self)"
| "FunctionWrapper_visit_handlers environ self (h # hs) =
     (let (h', self1) = FunctionWrapper_visit_handler environ self h;
          (hs', self2) = FunctionWrapper_visit_handlers environ self1 hs
      in (h' # hs', self2))"

definition FunctionWrapper_visit_Module :: "environ \<Rightarrow> FunctionWrapper \<Rightarrow> module \<Rightarrow> module \<times> FunctionWrapper" where
  \<comment> \<open>\<^verbatim>\<open>transformer.visit(tree)\<close> on the \<^verbatim>\<open>ast.Module\<close> that \<^verbatim>\<open>ast.parse\<close> returns\<close>
  "FunctionWrapper_visit_Module environ self tree =
     (case tree of Module body \<Rightarrow>
        (let (body', self1) = FunctionWrapper_visit_list environ self body
         in (Module body', self1)))"

section \<open>Exceptions, paths and files\<close>

text \<open>
  The exceptions that the library calls of the instrumenter raise. All of them are subclasses
  of \<^verbatim>\<open>Exception\<close>, so an \<^verbatim>\<open>except Exception\<close> clause catches each of them.
\<close>

datatype exn =
    FileNotFoundError
  | PermissionError
  | OSError
  | UnicodeDecodeError
  | UnicodeEncodeError
  | ValueError
  | SyntaxError string
  | OtherError string

text \<open>
  A \<^verbatim>\<open>pathlib\<close> path on a POSIX system: its root and its components below the root.
  \<open>Path\<close> parses a string as \<^verbatim>\<open>pathlib.Path\<close> does: the root is \<^verbatim>\<open>//\<close> when the string
  starts with exactly two slashes, \<^verbatim>\<open>/\<close> when it starts with one or with three and more;
  empty components and \<^verbatim>\<open>.\<close> are dropped, \<^verbatim>\<open>..\<close> is kept.
\<close>

datatype path_root = NoRoot | Slash | DoubleSlash

datatype pypath = PurePath (root: path_root) (parts: "string list")

definition is_absolute :: "pypath \<Rightarrow> bool" where
  "is_absolute p = (root p \<noteq> NoRoot)"

definition Path :: "string \<Rightarrow> pypath" where
  "Path s =
     PurePath
       (if startswith s ''//'' \<and> \<not> startswith s ''///'' then DoubleSlash
        else if startswith s ''/'' then Slash
        else NoRoot)
       (filter (\<lambda>p. p \<noteq> [] \<and> p \<noteq> ''.'') (split CHR ''/'' s))"

definition joinpath :: "pypath \<Rightarrow> pypath \<Rightarrow> pypath" where
  \<comment> \<open>the operator \<^verbatim>\<open>/\<close> of \<^verbatim>\<open>pathlib\<close>\<close>
  "joinpath p q = (if is_absolute q then q else PurePath (root p) (parts p @ parts q))"

definition relative_to :: "pypath \<Rightarrow> pypath \<Rightarrow> exn + pypath" where
  \<comment> \<open>\<^verbatim>\<open>p.relative_to(other)\<close>: \<^verbatim>\<open>ValueError\<close> unless the roots agree and \<open>other\<close> is a
      leading part of \<open>p\<close>\<close>
  "relative_to p other =
     (if root p = root other \<and> take (length (parts other)) (parts p) = parts other
      then Inr (PurePath NoRoot (drop (length (parts other)) (parts p)))
      else Inl ValueError)"

text \<open>
  A file is either text (the bytes on disk are the UTF-8 encoding of the string) or bytes
  that are not valid UTF-8. The file system maps the components of the resolved absolute
  path of a file to what the file holds. Symbolic links and hard links are not modelled, and
  the model has no directories of its own: whether
  \<^verbatim>\<open>mkdir(parents=True, exist_ok=True)\<close> and the opening of a file succeed is part of the
  outcome of the write.

  Opening a file for writing empties it. A write therefore ends in one of three ways: it
  completes; the opening raises and the file is untouched; or the opening has succeeded and
  a later step raises, which leaves in the file whatever had reached it.
\<close>

datatype file_content = Text string | Binary string

type_synonym filesystem = "string list \<rightharpoonup> file_content"

datatype write_outcome = Written | OpenFails exn | WriteFails exn file_content

section \<open>The surroundings of the instrumenter\<close>

text \<open>
  What the instrumenter takes from outside the repository: the working directory, the process
  environment, the parser \<^verbatim>\<open>ast.parse(code, filename)\<close>, the emitter
  \<^verbatim>\<open>astor.to_source(tree)\<close>, how the write of a text to a file ends, and whether
  \<^verbatim>\<open>print\<close> of a message that ends in \<^verbatim>\<open>str(e)\<close> raises (the standard output may be
  closed, or unable to encode the message). The parser and the emitter are parameters: each
  returns a value or raises.
\<close>

record system =
  cwd :: "string list"
  os_environ :: environ
  ast_parse :: "string \<Rightarrow> string \<Rightarrow> exn + module"
  astor_to_source :: "module \<Rightarrow> exn + string"
  outcome_of_write :: "string list \<Rightarrow> string \<Rightarrow> write_outcome"
  stdout_print :: "string \<Rightarrow> exn \<Rightarrow> exn option"

definition Path_cwd :: "system \<Rightarrow> pypath" where
  \<comment> \<open>\<^verbatim>\<open>Path.cwd()\<close>\<close>
  "Path_cwd sys = PurePath Slash (cwd sys)"

fun resolve :: "string list \<Rightarrow> string list \<Rightarrow> string list" where
  \<comment> \<open>the components still to walk, and the directory reached so far, innermost first:
      \<^verbatim>\<open>..\<close> steps to the parent, and the parent of the root is the root\<close>
  "resolve reached [] = rev reached"
| "resolve reached (c # cs) =
     (if c = ''..'' then resolve (tl reached) cs else resolve (c # reached) cs)"

definition os_path :: "system \<Rightarrow> pypath \<Rightarrow> string list" where
  \<comment> \<open>the file a path names when the system opens it: a relative path starts at the working
      directory, both roots are the root directory, and \<^verbatim>\<open>..\<close> is resolved (every
      directory on the way is taken to exist)\<close>
  "os_path sys p = resolve [] (if is_absolute p then parts p else cwd sys @ parts p)"

abbreviation LF :: char where "LF \<equiv> CHR 0x0A"

abbreviation CR :: char where "CR \<equiv> CHR 0x0D"

fun universal_newlines :: "string \<Rightarrow> string" where
  \<comment> \<open>reading in text mode with the default \<^verbatim>\<open>newline=None\<close>: \<^verbatim>\<open>\r\n\<close> and a lone
      \<^verbatim>\<open>\r\<close> arrive as \<^verbatim>\<open>\n\<close>\<close>
  "universal_newlines [] = []"
| "universal_newlines [c] = (if c = CR then [LF] else [c])"
| "universal_newlines (c # d # cs) =
     (if c = CR then (if d = LF then LF # universal_newlines cs else LF # universal_newlines (d # cs))
      else c # universal_newlines (d # cs))"

definition read_text :: "system \<Rightarrow> filesystem \<Rightarrow> pypath \<Rightarrow> exn + string" where
  \<comment> \<open>\<^verbatim>\<open>with open(p, 'r', encoding='utf-8') as f: f.read()\<close>\<close>
  "read_text sys fs p =
     (case fs (os_path sys p) of
        None \<Rightarrow> Inl FileNotFoundError
      | Some (Binary b) \<Rightarrow> Inl UnicodeDecodeError
      | Some (Text s) \<Rightarrow> Inr (universal_newlines s))"

definition write_text ::
  "system \<Rightarrow> filesystem \<Rightarrow> pypath \<Rightarrow> string \<Rightarrow> exn \<times> filesystem + filesystem" where
  \<comment> \<open>\<^verbatim>\<open>with open(p, 'w', encoding='utf-8') as f: f.write(s)\<close>; on POSIX the text is written
      as it is. The result is the file system after the write, with the exception when one
      was raised.\<close>
  "write_text sys fs p s =
     (case outcome_of_write sys (os_path sys p) s of
        Written \<Rightarrow> Inr (fs(os_path sys p \<mapsto> Text s))
      | OpenFails e \<Rightarrow> Inl (e, fs)
      | WriteFails e left \<Rightarrow> Inl (e, fs(os_path sys p \<mapsto> left)))"

definition path_exists :: "system \<Rightarrow> filesystem \<Rightarrow> pypath \<Rightarrow> bool" where
  \<comment> \<open>\<^verbatim>\<open>p.exists()\<close>\<close>
  "path_exists sys fs p = (fs (os_path sys p) \<noteq> None)"

section \<open>PythonInstrumenter\<close>

record PythonInstrumenter =
  backup_dir :: pypath

definition PythonInstrumenter_init :: "system \<Rightarrow> PythonInstrumenter" where
  \<comment> \<open>\<^verbatim>\<open>PythonInstrumenter.__init__\<close>; the directory it creates is no part of the model\<close>
  "PythonInstrumenter_init sys =
     \<lparr> backup_dir =
         joinpath (joinpath (joinpath (joinpath (Path_cwd sys) (Path ''.ai-agents''))
           (Path ''logging'')) (Path ''backups'')) (Path ''original'') \<rparr>"

text \<open>
  The dictionary that \<^verbatim>\<open>instrument_file\<close> returns. A key that a branch leaves out is
  \<open>None\<close>. Under \<^verbatim>\<open>'error'\<close> stands either a string literal of the source or
  \<^verbatim>\<open>str(e)\<close> of the exception caught; under \<^verbatim>\<open>'backup_path'\<close> either a path object
  or a string. The local variables \<^verbatim>\<open>original_code\<close>, \<^verbatim>\<open>instrumented_code\<close> and
  \<^verbatim>\<open>backup_path\<close> of the methods are written \<open>original\<close>, \<open>instrumented\<close> and
  \<open>backup\<close> below, since the fields of the dictionary carry those names.
\<close>

datatype error_text = Literal string | StrOf exn

datatype path_or_str = PathObj pypath | StrObj string

record result =
  success :: bool
  error :: "error_text option"
  original_code :: "string option"
  instrumented_code :: "string option"
  functions_wrapped :: nat
  backup_path :: path_or_str

definition get_backup_path :: "PythonInstrumenter \<Rightarrow> system \<Rightarrow> string \<Rightarrow> exn + pypath" where
  \<comment> \<open>\<^verbatim>\<open>PythonInstrumenter._get_backup_path\<close>\<close>
  "get_backup_path self sys file_path =
     (case relative_to (Path file_path) (Path_cwd sys) of
        Inl e \<Rightarrow> Inl e
      | Inr relative_path \<Rightarrow> Inr (joinpath (backup_dir self) relative_path))"

definition create_backup ::
  "PythonInstrumenter \<Rightarrow> system \<Rightarrow> filesystem \<Rightarrow> string \<Rightarrow> string \<Rightarrow>
     exn \<times> filesystem + pypath \<times> filesystem" where
  \<comment> \<open>\<^verbatim>\<open>PythonInstrumenter._create_backup\<close>: the backup path, or the exception raised, and
      the file system afterwards\<close>
  "create_backup self sys fs file_path content =
     (case relative_to (Path file_path) (Path_cwd sys) of
        Inl e \<Rightarrow> Inl (e, fs)
      | Inr relative_path \<Rightarrow>
          (let backup = joinpath (backup_dir self) relative_path
           in case write_text sys fs backup content of
                Inl (e, fs') \<Rightarrow> Inl (e, fs')
              | Inr fs' \<Rightarrow> Inr (backup, fs')))"

definition is_instrumented :: "string \<Rightarrow> bool" where
  \<comment> \<open>\<^verbatim>\<open>PythonInstrumenter._is_instrumented\<close>\<close>
  "is_instrumented code =
     (contains ''__tracer'' code \<or> contains ''from .ai_agents.logging.runtime.tracer'' code)"

definition add_tracer_import :: "string \<Rightarrow> string" where
  \<comment> \<open>\<^verbatim>\<open>PythonInstrumenter._add_tracer_import\<close>\<close>
  "add_tracer_import code =
     (let import_statement = ''from .ai_agents.logging.runtime.tracer import __tracer'' @ [LF, LF]
      in import_statement @ code)"

fun join :: "string \<Rightarrow> string list \<Rightarrow> string" where
  \<comment> \<open>\<^verbatim>\<open>sep.join(xs)\<close>\<close>
  "join sep [] = []"
| "join sep [x] = x"
| "join sep (x # y # ys) = x @ sep @ join sep (y # ys)"

definition remove_instrumentation :: "string \<Rightarrow> string" where
  \<comment> \<open>\<^verbatim>\<open>PythonInstrumenter._remove_instrumentation\<close>\<close>
  "remove_instrumentation code =
     (let lines = split LF code;
          cleaned_lines =
            filter (\<lambda>line. \<not> contains ''__tracer'' line \<and>
                           \<not> contains ''from .ai_agents.logging.runtime.tracer'' line) lines
      in join [LF] cleaned_lines)"

definition except_result :: "exn \<Rightarrow> result" where
  \<comment> \<open>the dictionary built by the clause \<^verbatim>\<open>except Exception as e\<close> of \<^verbatim>\<open>instrument_file\<close>\<close>
  "except_result e =
     \<lparr> success = False, error = Some (StrOf e), original_code = None, instrumented_code = None,
       functions_wrapped = 0, backup_path = StrObj [] \<rparr>"

text \<open>
  \<^verbatim>\<open>PythonInstrumenter.instrument_file\<close>. The whole body stands in one \<^verbatim>\<open>try\<close> block:
  each call that can raise is a \<open>case\<close> whose \<open>Inl\<close> branch is the \<^verbatim>\<open>except\<close> clause,
  entered with the file system as the calls before it left it. The \<^verbatim>\<open>except\<close> clause
  builds a dictionary and calls nothing that raises, so the method always returns: the
  result is the dictionary and the file system. The visit of the tree is the function
  \<open>FunctionWrapper_visit_Module\<close>, which returns on every tree, and
  \<^verbatim>\<open>ast.fix_missing_locations\<close> changes source locations only.
\<close>

definition instrument_file ::
  "PythonInstrumenter \<Rightarrow> system \<Rightarrow> filesystem \<Rightarrow> string \<Rightarrow> InstrumentOptions \<Rightarrow> result \<times> filesystem" where
  "instrument_file self sys fs file_path opts =
     (case read_text sys fs (Path file_path) of
        Inl e \<Rightarrow> (except_result e, fs)
      | Inr original \<Rightarrow>
     (case create_backup self sys fs file_path original of
        Inl (e, fs1) \<Rightarrow> (except_result e, fs1)
      | Inr (backup, fs1) \<Rightarrow>
          if is_instrumented original
          then (\<lparr> success = False,
                  error = Some (Literal ''File is already instrumented. Use uninstrument first.''),
                  original_code = None, instrumented_code = None,
                  functions_wrapped = 0, backup_path = PathObj backup \<rparr>, fs1)
          else
     (case ast_parse sys original file_path of
        Inl e \<Rightarrow> (except_result e, fs1)
      | Inr tree \<Rightarrow>
          (let transformer = FunctionWrapper_init (os_environ sys) file_path opts;
               (new_tree, transformer) = FunctionWrapper_visit_Module (os_environ sys) transformer tree
           in
     (case astor_to_source sys new_tree of
        Inl e \<Rightarrow> (except_result e, fs1)
      | Inr instrumented \<Rightarrow>
          (let instrumented = add_tracer_import instrumented
           in
     (case write_text sys fs1 (Path file_path) instrumented of
        Inl (e, fs2) \<Rightarrow> (except_result e, fs2)
      | Inr fs2 \<Rightarrow>
          (\<lparr> success = True, error = None,
             original_code = Some original, instrumented_code = Some instrumented,
             functions_wrapped = self_functions_wrapped transformer,
             backup_path = PathObj backup \<rparr>, fs2))))))))"

text \<open>
  \<^verbatim>\<open>PythonInstrumenter.uninstrument_file\<close>. The \<^verbatim>\<open>except\<close> clause prints a message
  and returns \<^verbatim>\<open>False\<close>; an exception that \<^verbatim>\<open>print\<close> raises there is not caught by
  anything and leaves the method. The result is the boolean returned, or the exception that
  leaves the method, and the file system.
\<close>

definition uninstrument_except :: "system \<Rightarrow> exn \<Rightarrow> exn + bool" where
  \<comment> \<open>\<^verbatim>\<open>except Exception as e: print(f'[Instrumenter] Failed to uninstrument: {e}');
      return False\<close>\<close>
  "uninstrument_except sys e =
     (case stdout_print sys ''[Instrumenter] Failed to uninstrument: '' e of
        Some raised \<Rightarrow> Inl raised
      | None \<Rightarrow> Inr False)"

definition uninstrument_file ::
  "PythonInstrumenter \<Rightarrow> system \<Rightarrow> filesystem \<Rightarrow> string \<Rightarrow> bool \<Rightarrow> (exn + bool) \<times> filesystem" where
  "uninstrument_file self sys fs file_path restore =
     (if restore then
        (case get_backup_path self sys file_path of
           Inl e \<Rightarrow> (uninstrument_except sys e, fs)
         | Inr backup \<Rightarrow>
             if path_exists sys fs backup then
               (case read_text sys fs backup of
                  Inl e \<Rightarrow> (uninstrument_except sys e, fs)
                | Inr original \<Rightarrow>
                    (case write_text sys fs (Path file_path) original of
                       Inl (e, fs') \<Rightarrow> (uninstrument_except sys e, fs')
                     | Inr fs' \<Rightarrow> (Inr True, fs')))
             else (Inr False, fs))
      else
        (case read_text sys fs (Path file_path) of
           Inl e \<Rightarrow> (uninstrument_except sys e, fs)
         | Inr code \<Rightarrow>
             (let cleaned = remove_instrumentation code
              in case write_text sys fs (Path file_path) cleaned of
                   Inl (e, fs') \<Rightarrow> (uninstrument_except sys e, fs')
                 | Inr fs' \<Rightarrow> (Inr True, fs'))))"

section \<open>Listing the functions of a file\<close>

text \<open>
  \<^verbatim>\<open>ast.walk(tree)\<close>: a queue that starts with the root; each node taken from the front is
  yielded and its children (\<^verbatim>\<open>ast.iter_child_nodes\<close>, in field order) are put at the back.
  Only the nodes that can hold a statement are followed.
\<close>

datatype node = ModuleNode module | StmtNode stmt | HandlerNode excepthandler

fun iter_child_nodes :: "node \<Rightarrow> node list" where
  "iter_child_nodes (ModuleNode (Module body)) = map StmtNode body"
| "iter_child_nodes (StmtNode (FunctionDef name a body decorator_list)) = map StmtNode body"
| "iter_child_nodes (StmtNode (AsyncFunctionDef name a body decorator_list)) = map StmtNode body"
| "iter_child_nodes (StmtNode (ClassDef name bases body decorator_list)) = map StmtNode body"
| "iter_child_nodes (StmtNode (If test body orelse)) = map StmtNode body @ map StmtNode orelse"
| "iter_child_nodes (StmtNode (For target iter body orelse)) = map StmtNode body @ map StmtNode orelse"
| "iter_child_nodes (StmtNode (While test body orelse)) = map StmtNode body @ map StmtNode orelse"
| "iter_child_nodes (StmtNode (With items body)) = map StmtNode body"
| "iter_child_nodes (StmtNode (Try body handlers orelse finalbody)) =
     map StmtNode body @ map HandlerNode handlers @ map StmtNode orelse @ map StmtNode finalbody"
| "iter_child_nodes (StmtNode s) = []"
| "iter_child_nodes (HandlerNode (ExceptHandler type name body)) = map StmtNode body"

primrec count_nodes :: "stmt \<Rightarrow> nat"
  and count_nodes_handler :: "excepthandler \<Rightarrow> nat" where
  "count_nodes (FunctionDef name a body decorator_list) = Suc (sum_list (map count_nodes body))"
| "count_nodes (AsyncFunctionDef name a body decorator_list) = Suc (sum_list (map count_nodes body))"
| "count_nodes (ClassDef name bases body decorator_list) = Suc (sum_list (map count_nodes body))"
| "count_nodes (Return v) = 1"
| "count_nodes (Assign targets v) = 1"
| "count_nodes (Expr v) = 1"
| "count_nodes (If test body orelse) =
     Suc (sum_list (map count_nodes body) + sum_list (map count_nodes orelse))"
| "count_nodes (For target iter body orelse) =
     Suc (sum_list (map count_nodes body) + sum_list (map count_nodes orelse))"
| "count_nodes (While test body orelse) =
     Suc (sum_list (map count_nodes body) + sum_list (map count_nodes orelse))"
| "count_nodes (With items body) = Suc (sum_list (map count_nodes body))"
| "count_nodes (Try body handlers orelse finalbody) =
     Suc (sum_list (map count_nodes body) + sum_list (map count_nodes_handler handlers) +
          sum_list (map count_nodes orelse) + sum_list (map count_nodes finalbody))"
| "count_nodes (Raise exc cause) = 1"
| "count_nodes Pass = 1"
| "count_nodes_handler (ExceptHandler type name body) = Suc (sum_list (map count_nodes body))"

fun node_size :: "node \<Rightarrow> nat" where
  "node_size (ModuleNode (Module body)) = Suc (sum_list (map count_nodes body))"
| "node_size (StmtNode s) = count_nodes s"
| "node_size (HandlerNode h) = count_nodes_handler h"

function ast_walk :: "node list \<Rightarrow> node list" where
  "ast_walk [] = []"
| "ast_walk (n # todo) = n # ast_walk (todo @ iter_child_nodes n)"
  by pat_completeness auto
termination
proof (relation "measure (\<lambda>todo. sum_list (map node_size todo))")
  show "wf (measure (\<lambda>todo. sum_list (map node_size todo)))"
    by simp
next
  fix n :: node and todo :: "node list"
  have "sum_list (map node_size (iter_child_nodes n)) < node_size n"
  proof (cases n)
    case (ModuleNode m)
    then show ?thesis by (cases m) (simp add: comp_def)
  next
    case (StmtNode s)
    then show ?thesis by (cases s) (simp_all add: comp_def)
  next
    case (HandlerNode h)
    then show ?thesis by (cases h) (simp add: comp_def)
  qed
  then show "(todo @ iter_child_nodes n, n # todo) \<in> measure (\<lambda>todo. sum_list (map node_size todo))"
    by simp
qed

fun function_names :: "node list \<Rightarrow> string list" where
  \<comment> \<open>the loop of \<^verbatim>\<open>get_functions_in_file\<close> over the nodes walked\<close>
  "function_names [] = []"
| "function_names (StmtNode (FunctionDef name a body decorator_list) # ns) = name # function_names ns"
| "function_names (StmtNode (AsyncFunctionDef name a body decorator_list) # ns) = name # function_names ns"
| "function_names (n # ns) = function_names ns"

definition get_functions_in_file :: "system \<Rightarrow> filesystem \<Rightarrow> string \<Rightarrow> string list" where
  \<comment> \<open>\<^verbatim>\<open>PythonInstrumenter.get_functions_in_file\<close>; when the \<^verbatim>\<open>except\<close> clause is
      entered, the list returned after its \<^verbatim>\<open>print\<close> has returned\<close>
  "get_functions_in_file sys fs file_path =
     (case read_text sys fs (Path file_path) of
        Inl e \<Rightarrow> []
      | Inr code \<Rightarrow>
          (case ast_parse sys code file_path of
             Inl e \<Rightarrow> []
           | Inr tree \<Rightarrow> function_names (ast_walk [ModuleNode tree])))"

section \<open>Notions used to state the properties\<close>

text \<open>
  The statements below a statement, block after block in field order, and the statement
  reached from a list of statements by a position: the index in the list, then the index
  among the children, and so on.
\<close>

primrec child_stmts :: "stmt \<Rightarrow> stmt list"
  and handler_stmts :: "excepthandler \<Rightarrow> stmt list" where
  "child_stmts (FunctionDef name a body decorator_list) = body"
| "child_stmts (AsyncFunctionDef name a body decorator_list) = body"
| "child_stmts (ClassDef name bases body decorator_list) = body"
| "child_stmts (Return v) = []"
| "child_stmts (Assign targets v) = []"
| "child_stmts (Expr v) = []"
| "child_stmts (If test body orelse) = body @ orelse"
| "child_stmts (For target iter body orelse) = body @ orelse"
| "child_stmts (While test body orelse) = body @ orelse"
| "child_stmts (With items body) = body"
| "child_stmts (Try body handlers orelse finalbody) =
     body @ concat (map handler_stmts handlers) @ orelse @ finalbody"
| "child_stmts (Raise exc cause) = []"
| "child_stmts Pass = []"
| "handler_stmts (ExceptHandler type name body) = body"

fun stmt_at :: "stmt list \<Rightarrow> nat list \<Rightarrow> stmt option" where
  "stmt_at ss [] = None"
| "stmt_at ss [i] = (if i < length ss then Some (ss ! i) else None)"
| "stmt_at ss (i # j # p) =
     (if i < length ss then stmt_at (child_stmts (ss ! i)) (j # p) else None)"

text \<open>
  The names of the definitions below a statement that are not inside another definition:
  those that \<^verbatim>\<open>FunctionWrapper.visit\<close> reaches.
\<close>

primrec outer_definitions :: "stmt \<Rightarrow> string list"
  and outer_definitions_handler :: "excepthandler \<Rightarrow> string list" where
  "outer_definitions (FunctionDef name a body decorator_list) = [name]"
| "outer_definitions (AsyncFunctionDef name a body decorator_list) = [name]"
| "outer_definitions (ClassDef name bases body decorator_list) = concat (map outer_definitions body)"
| "outer_definitions (Return v) = []"
| "outer_definitions (Assign targets v) = []"
| "outer_definitions (Expr v) = []"
| "outer_definitions (If test body orelse) =
     concat (map outer_definitions body) @ concat (map outer_definitions orelse)"
| "outer_definitions (For target iter body orelse) =
     concat (map outer_definitions body) @ concat (map outer_definitions orelse)"
| "outer_definitions (While test body orelse) =
     concat (map outer_definitions body) @ concat (map outer_definitions orelse)"
| "outer_definitions (With items body) = concat (map outer_definitions body)"
| "outer_definitions (Try body handlers orelse finalbody) =
     concat (map outer_definitions body) @ concat (map outer_definitions_handler handlers) @
     concat (map outer_definitions orelse) @ concat (map outer_definitions finalbody)"
| "outer_definitions (Raise exc cause) = []"
| "outer_definitions Pass = []"
| "outer_definitions_handler (ExceptHandler type name body) = concat (map outer_definitions body)"

definition accepted :: "environ \<Rightarrow> FunctionWrapper \<Rightarrow> string list \<Rightarrow> nat" where
  \<comment> \<open>how many of the names the policy accepts\<close>
  "accepted environ self names = length (filter (should_instrument environ self) names)"

definition counted :: "FunctionWrapper \<Rightarrow> nat \<Rightarrow> FunctionWrapper" where
  \<comment> \<open>the transformer after \<open>n\<close> more functions were counted\<close>
  "counted self n = self\<lparr>self_functions_wrapped := self_functions_wrapped self + n\<rparr>"

text \<open>
  The number of function and coroutine definitions of a file that the policy accepts, in the
  specification's sense: every definition of the tree counts, nested ones included.
\<close>

definition eligible_definitions :: "environ \<Rightarrow> FunctionWrapper \<Rightarrow> module \<Rightarrow> nat" where
  "eligible_definitions environ self tree =
     length (filter (should_instrument environ self) (function_names (ast_walk [ModuleNode tree])))"

section \<open>Example inputs\<close>

definition no_arguments :: arguments where
  "no_arguments = Arguments [] [] None [] None"

definition default_options :: InstrumentOptions where
  \<comment> \<open>\<^verbatim>\<open>InstrumentOptions()\<close>\<close>
  "default_options =
     \<lparr> level = 2, capture_params = True, capture_return = True, capture_vars = False,
       capture_async = True, opt_functions = [], exclude_functions = [] \<rparr>"

definition source_assign :: string where
  "source_assign = ''x = 1'' @ [LF]"

definition tree_assign :: module where
  "tree_assign = Module [Assign [Name ''x'' Store] (Constant (ConstInt 1))]"

definition source_nested :: string where
  "source_nested =
     ''def outer():'' @ [LF] @
     ''    def inner():'' @ [LF] @
     ''        return 1'' @ [LF] @
     ''    return inner()'' @ [LF]"

definition tree_nested :: module where
  "tree_nested =
     Module
       [FunctionDef ''outer'' no_arguments
          [FunctionDef ''inner'' no_arguments [Return (Some (Constant (ConstInt 1)))] [],
           Return (Some (Call (Name ''inner'' Load) [] []))]
          []]"

definition tree_nested_wrapped :: module where
  "tree_nested_wrapped =
     Module
       [FunctionDef ''outer'' no_arguments
          [Assign [Name ''__ctx'' Store]
             (Call (Attribute (Name ''__tracer'' Load) ''start_function'' Load)
                [Constant (ConstStr ''outer''), Constant (ConstStr ''/w/m.py''), Dict [] []] []),
           Try
             [FunctionDef ''inner'' no_arguments
                [Return (Some (Call (Attribute (Name ''__tracer'' Load) ''end_function'' Load)
                                 [Name ''__ctx'' Load, Constant (ConstInt 1)] []))]
                [],
              Return (Some (Call (Attribute (Name ''__tracer'' Load) ''end_function'' Load)
                               [Name ''__ctx'' Load, Call (Name ''inner'' Load) [] []] []))]
             [ExceptHandler (Some (Name ''Exception'' Load)) (Some ''error'')
                [Expr (Call (Attribute (Name ''__tracer'' Load) ''error_function'' Load)
                         [Name ''__ctx'' Load, Name ''error'' Load] []),
                 Raise (Some (Name ''error'' Load)) None]]
             [] []]
          []]"

definition source_nested_wrapped :: string where
  "source_nested_wrapped =
     ''def outer():'' @ [LF] @
     ''    __ctx = __tracer.start_function('outer', '/w/m.py', {})'' @ [LF] @
     ''    try:'' @ [LF] @
     [LF] @
     ''        def inner():'' @ [LF] @
     ''            return __tracer.end_function(__ctx, 1)'' @ [LF] @
     ''        return __tracer.end_function(__ctx, inner())'' @ [LF] @
     ''    except Exception as error:'' @ [LF] @
     ''        __tracer.error_function(__ctx, error)'' @ [LF] @
     ''        raise error'' @ [LF]"

definition source_broken :: string where
  "source_broken = ''def f(:'' @ [LF]"

definition example_parse :: "string \<Rightarrow> string \<Rightarrow> exn + module" where
  \<comment> \<open>what \<^verbatim>\<open>ast.parse\<close> returns on the example sources\<close>
  "example_parse code filename =
     (if code = source_assign then Inr tree_assign
      else if code = source_nested then Inr tree_nested
      else Inl (SyntaxError ''invalid syntax''))"

definition example_to_source :: "module \<Rightarrow> exn + string" where
  \<comment> \<open>what the emitter returns on the example trees\<close>
  "example_to_source tree =
     (if tree = tree_assign then Inr source_assign
      else if tree = tree_nested then Inr source_nested
      else if tree = tree_nested_wrapped then Inr source_nested_wrapped
      else Inl (OtherError ''unsupported tree''))"

definition example_system :: system where
  "example_system =
     \<lparr> cwd = [''w''], os_environ = Map.empty, ast_parse = example_parse,
       astor_to_source = example_to_source, outcome_of_write = (\<lambda>p s. Written),
       stdout_print = (\<lambda>message e. None) \<rparr>"

definition closed_stdout_system :: system where
  \<comment> \<open>the same after \<^verbatim>\<open>sys.stdout.close()\<close>: every \<^verbatim>\<open>print\<close> raises \<^verbatim>\<open>ValueError\<close>\<close>
  "closed_stdout_system = example_system\<lparr> stdout_print := (\<lambda>message e. Some ValueError) \<rparr>"

definition moved_system :: system where
  \<comment> \<open>the same after \<^verbatim>\<open>os.chdir('/w/.ai-agents/logging/backups/original')\<close>\<close>
  "moved_system =
     example_system\<lparr> cwd := [''w'', ''.ai-agents'', ''logging'', ''backups'', ''original''] \<rparr>"

definition example_environ :: environ where
  "example_environ =
     [''TRACING_EXCLUDE_FUNCTION_PREFIXES'' \<mapsto> ''test_, _'',
      ''TRACING_EXCLUDE_FUNCTIONS'' \<mapsto> ''main, setup'']"

definition example_options :: InstrumentOptions where
  "example_options =
     default_options\<lparr> opt_functions := [''test_parse'', ''__init__''],
                      exclude_functions := [''helper''] \<rparr>"

definition only_inner :: InstrumentOptions where
  \<comment> \<open>\<^verbatim>\<open>InstrumentOptions(functions=['inner'])\<close>\<close>
  "only_inner = default_options\<lparr> opt_functions := [''inner''] \<rparr>"

definition example_body :: "stmt list" where
  \<comment> \<open>\<^verbatim>\<open>if flag: return\<close>, \<^verbatim>\<open>else: return x\<close>, then \<^verbatim>\<open>while flag: try: return 0\<close>\<close>
  "example_body =
     [If (Name ''flag'' Load) [Return None] [Return (Some (Name ''x'' Load))],
      While (Name ''flag'' Load) [Try [Return (Some (Constant (ConstInt 0)))] [] [] []] []]"

definition source_instrumented :: string where
  \<comment> \<open>the text an instrumentation of \<open>source_assign\<close> writes\<close>
  "source_instrumented = add_tracer_import source_assign"

definition example_files :: "string \<Rightarrow> filesystem" where
  \<comment> \<open>a file system that holds the one text file \<^verbatim>\<open>/w/m.py\<close>\<close>
  "example_files content = [[''w'', ''m.py''] \<mapsto> Text content]"

definition example_backup :: "string list" where
  \<comment> \<open>where the backup of \<^verbatim>\<open>/w/m.py\<close> is kept\<close>
  "example_backup = [''w'', ''.ai-agents'', ''logging'', ''backups'', ''original'', ''m.py'']"

section \<open>Properties of the instrumentation policy\<close>

lemma excluded_after_init:
  "self_exclude_functions (FunctionWrapper_init environ file_path opts) =
     get_excluded_functions environ opts"
  by (simp add: FunctionWrapper_init_def)

lemma options_after_init:
  "self_options (FunctionWrapper_init environ file_path opts) = opts"
  by (simp add: FunctionWrapper_init_def)

lemma example_excluded:
  "get_excluded_functions example_environ example_options =
     [''helper'', ''main'', ''setup'', ''__init__'', ''__str__'', ''__repr__'', ''__eq__'']"
  by (simp add: get_excluded_functions_def example_environ_def example_options_def
      default_options_def os_getenv_def strip_def space1_def space2_def space3_def)

text \<open>
  Claim C5. A function name that is listed in the include-only list of the run and starts with
  one of the prefixes of \<^verbatim>\<open>TRACING_EXCLUDE_FUNCTION_PREFIXES\<close>, and that is not in the
  exclusion list of the transformer (the excluded names of the options, those of the
  environment, the four special methods), is instrumented: the membership test returns before
  the prefixes are read. With the include-only list emptied the same name is rejected by the
  prefix rule.
\<close>

theorem include_only_decides_before_prefixes:
  assumes "func_name \<in> set (opt_functions opts)"
    and "func_name \<notin> set (get_excluded_functions environ opts)"
    and "os_getenv environ ''TRACING_EXCLUDE_FUNCTION_PREFIXES'' '''' \<noteq> ''''"
    and "some_prefix_matches func_name
           (split CHR '','' (os_getenv environ ''TRACING_EXCLUDE_FUNCTION_PREFIXES'' ''''))"
  shows "should_instrument environ (FunctionWrapper_init environ file_path opts) func_name = True
       \<and> should_instrument environ
            (FunctionWrapper_init environ file_path (opts\<lparr>opt_functions := []\<rparr>)) func_name = False"
proof -
  have "get_excluded_functions environ (opts\<lparr>opt_functions := []\<rparr>) =
          get_excluded_functions environ opts"
    by (simp add: get_excluded_functions_def)
  with assms show ?thesis
    by (auto simp: should_instrument_def excluded_after_init options_after_init)
qed

theorem include_only_decides_before_prefixes_witness:
  "''test_parse'' \<in> set (opt_functions example_options)
   \<and> ''test_parse'' \<notin> set (get_excluded_functions example_environ example_options)
   \<and> os_getenv example_environ ''TRACING_EXCLUDE_FUNCTION_PREFIXES'' '''' \<noteq> ''''
   \<and> some_prefix_matches ''test_parse''
        (split CHR '','' (os_getenv example_environ ''TRACING_EXCLUDE_FUNCTION_PREFIXES'' ''''))
   \<and> should_instrument example_environ
        (FunctionWrapper_init example_environ ''/w/m.py'' example_options) ''test_parse'' = True
   \<and> should_instrument example_environ
        (FunctionWrapper_init example_environ ''/w/m.py'' (example_options\<lparr>opt_functions := []\<rparr>))
        ''test_parse'' = False"
proof -
  have a: "''test_parse'' \<in> set (opt_functions example_options)"
    by (simp add: example_options_def)
  have b: "''test_parse'' \<notin> set (get_excluded_functions example_environ example_options)"
    by (simp add: example_excluded)
  have c: "os_getenv example_environ ''TRACING_EXCLUDE_FUNCTION_PREFIXES'' '''' \<noteq> ''''"
    by (simp add: example_environ_def os_getenv_def)
  have d: "some_prefix_matches ''test_parse''
        (split CHR '','' (os_getenv example_environ ''TRACING_EXCLUDE_FUNCTION_PREFIXES'' ''''))"
    by (simp add: example_environ_def os_getenv_def strip_def space1_def space2_def space3_def
        startswith_def)
  show ?thesis
    using a b c d include_only_decides_before_prefixes [OF a b c d, of "''/w/m.py''"] by simp
qed

text \<open>
  Claim C6. A function named \<^verbatim>\<open>__init__\<close>, \<^verbatim>\<open>__str__\<close>, \<^verbatim>\<open>__repr__\<close> or
  \<^verbatim>\<open>__eq__\<close> is never instrumented, whatever the options and the environment are, also
  when the include-only list names it.
\<close>

theorem special_methods_excluded:
  assumes "func_name \<in> {''__init__'', ''__str__'', ''__repr__'', ''__eq__''}"
  shows "should_instrument environ (FunctionWrapper_init environ file_path opts) func_name = False"
  using assms
  by (auto simp: should_instrument_def excluded_after_init get_excluded_functions_def Let_def)

theorem special_methods_excluded_witness:
  "''__init__'' \<in> {''__init__'', ''__str__'', ''__repr__'', ''__eq__''}
   \<and> ''__init__'' \<in> set (opt_functions example_options)
   \<and> should_instrument example_environ
        (FunctionWrapper_init example_environ ''/w/m.py'' example_options) ''__init__'' = False"
proof -
  have a: "''__init__'' \<in> {''__init__'', ''__str__'', ''__repr__'', ''__eq__''}"
    by simp
  have b: "''__init__'' \<in> set (opt_functions example_options)"
    by (simp add: example_options_def)
  show ?thesis
    using a b special_methods_excluded [OF a, of example_environ "''/w/m.py''" example_options]
    by simp
qed

section \<open>Return statements\<close>

lemma handler_stmts_visit:
  "handler_stmts (ReturnTransformer_visit_handler h) =
     map ReturnTransformer_visit (handler_stmts h)"
  by (cases h) simp

lemma child_stmts_visit:
  "child_stmts (ReturnTransformer_visit s) = map ReturnTransformer_visit (child_stmts s)"
  by (cases s)
    (simp_all add: visit_Return_def map_concat handler_stmts_visit comp_def split: option.split)

lemma stmt_at_visit:
  "stmt_at (map ReturnTransformer_visit ss) p = map_option ReturnTransformer_visit (stmt_at ss p)"
  by (induction ss p rule: stmt_at.induct) (simp_all add: child_stmts_visit)

text \<open>
  Claim C7. When a function or coroutine that the policy accepts is visited at level 2 or
  above, its body becomes the context assignment followed by one \<^verbatim>\<open>try\<close> statement around
  the transformed body. Every \<^verbatim>\<open>return\<close> of the old body, at whatever position, stands at
  the same position of the transformed body: with a value \<open>e\<close> it has become
  \<^verbatim>\<open>return __tracer.end_function(__ctx, e)\<close>, the call of the attribute
  \<^verbatim>\<open>end_function\<close> of the name \<^verbatim>\<open>__tracer\<close> on the name \<^verbatim>\<open>__ctx\<close> and \<open>e\<close> with no
  keywords; without a value it is unchanged.
\<close>

theorem returns_rewritten:
  assumes "should_instrument environ self name"
    and "2 \<le> level (self_options self)"
    and "stmt_at body p = Some (Return v)"
  shows "fst (visit_FunctionDef environ self name a body decorator_list) =
           FunctionDef name a
             [start_call self name a, Try (transform_returns body) [except_handler] [] []]
             decorator_list
       \<and> fst (visit_AsyncFunctionDef environ self name a body decorator_list) =
           AsyncFunctionDef name a
             [start_call self name a, Try (transform_returns body) [except_handler] [] []]
             decorator_list
       \<and> stmt_at (transform_returns body) p =
           Some (Return (case v of
                           None \<Rightarrow> None
                         | Some e \<Rightarrow>
                             Some (Call (Attribute (Name ''__tracer'' Load) ''end_function'' Load)
                                     [Name ''__ctx'' Load, e] [])))"
proof -
  have "stmt_at (transform_returns body) p = Some (visit_Return v)"
    using assms(3) by (simp add: transform_returns_def stmt_at_visit)
  then show ?thesis
    using assms(1,2)
    by (cases v)
      (auto simp: visit_FunctionDef_def visit_AsyncFunctionDef_def wrap_standard_def
        wrap_detailed_def wrap_async_def visit_Return_def tracer_call_def start_call_def Let_def)
qed

theorem returns_rewritten_witness:
  "should_instrument Map.empty (FunctionWrapper_init Map.empty ''/w/m.py'' default_options) ''f''
   \<and> 2 \<le> level (self_options (FunctionWrapper_init Map.empty ''/w/m.py'' default_options))
   \<and> stmt_at example_body [0, 1] = Some (Return (Some (Name ''x'' Load)))
   \<and> stmt_at example_body [0, 0] = Some (Return None)
   \<and> stmt_at example_body [1, 0, 0] = Some (Return (Some (Constant (ConstInt 0))))
   \<and> stmt_at (transform_returns example_body) [0, 1] =
        Some (Return (Some (Call (Attribute (Name ''__tracer'' Load) ''end_function'' Load)
                              [Name ''__ctx'' Load, Name ''x'' Load] [])))
   \<and> stmt_at (transform_returns example_body) [0, 0] = Some (Return None)
   \<and> stmt_at (transform_returns example_body) [1, 0, 0] =
        Some (Return (Some (Call (Attribute (Name ''__tracer'' Load) ''end_function'' Load)
                              [Name ''__ctx'' Load, Constant (ConstInt 0)] [])))
   \<and> fst (visit_FunctionDef Map.empty (FunctionWrapper_init Map.empty ''/w/m.py'' default_options)
             ''f'' no_arguments example_body []) =
        FunctionDef ''f'' no_arguments
          [Assign [Name ''__ctx'' Store]
             (Call (Attribute (Name ''__tracer'' Load) ''start_function'' Load)
                [Constant (ConstStr ''f''), Constant (ConstStr ''/w/m.py''), Dict [] []] []),
           Try (transform_returns example_body) [except_handler] [] []] []"
proof -
  let ?self = "FunctionWrapper_init Map.empty ''/w/m.py'' default_options"
  have a: "should_instrument Map.empty ?self ''f''"
    by (simp add: should_instrument_def FunctionWrapper_init_def get_excluded_functions_def
        os_getenv_def default_options_def)
  have b: "2 \<le> level (self_options ?self)"
    by (simp add: FunctionWrapper_init_def default_options_def)
  have c1: "stmt_at example_body [0, 1] = Some (Return (Some (Name ''x'' Load)))"
    and c2: "stmt_at example_body [0, 0] = Some (Return None)"
    and c3: "stmt_at example_body [1, 0, 0] = Some (Return (Some (Constant (ConstInt 0))))"
    by (simp_all add: example_body_def)
  show ?thesis
    using a b c1 c2 c3
      returns_rewritten [OF a b c1, of no_arguments "[]"]
      returns_rewritten [OF a b c2, of no_arguments "[]"]
      returns_rewritten [OF a b c3, of no_arguments "[]"]
    by (simp add: start_call_def tracer_call_def create_params_dict_def no_arguments_def
        FunctionWrapper_init_def)
qed

text \<open>
  Claim C1. The claim says that a \<^verbatim>\<open>return\<close> inside a nested function definition is never
  rewritten by the pass that wraps the enclosing function. \<^verbatim>\<open>ReturnTransformer\<close> has no
  method for definition nodes, so \<^verbatim>\<open>generic_visit\<close> walks into them: for
  \<^verbatim>\<open>def outer(): def inner(): return 1; return inner()\<close> at level 2 the \<^verbatim>\<open>return 1\<close>
  of \<^verbatim>\<open>inner\<close> comes out as \<^verbatim>\<open>return __tracer.end_function(__ctx, 1)\<close>, with the context
  of \<^verbatim>\<open>outer\<close>, and \<^verbatim>\<open>inner\<close> itself is not wrapped.
\<close>

theorem nested_return_is_rewritten:
  "FunctionWrapper_visit_Module Map.empty
     (FunctionWrapper_init Map.empty ''/w/m.py'' default_options)
     (Module
        [FunctionDef ''outer'' no_arguments
           [FunctionDef ''inner'' no_arguments [Return (Some (Constant (ConstInt 1)))] [],
            Return (Some (Call (Name ''inner'' Load) [] []))]
           []]) =
   (Module
      [FunctionDef ''outer'' no_arguments
         [Assign [Name ''__ctx'' Store]
            (tracer_call ''start_function''
               [Constant (ConstStr ''outer''), Constant (ConstStr ''/w/m.py''), Dict [] []]),
          Try
            [FunctionDef ''inner'' no_arguments
               [Return (Some (tracer_call ''end_function''
                                [Name ''__ctx'' Load, Constant (ConstInt 1)]))]
               [],
             Return (Some (tracer_call ''end_function''
                              [Name ''__ctx'' Load, Call (Name ''inner'' Load) [] []]))]
            [except_handler] [] []]
         []],
    (FunctionWrapper_init Map.empty ''/w/m.py'' default_options)\<lparr>self_functions_wrapped := 1\<rparr>)"
  by (simp add: FunctionWrapper_visit_Module_def visit_FunctionDef_def should_instrument_def
      FunctionWrapper_init_def get_excluded_functions_def os_getenv_def default_options_def
      wrap_standard_def transform_returns_def visit_Return_def start_call_def
      create_params_dict_def no_arguments_def Let_def)

section \<open>Evaluating the examples\<close>

lemmas example_defs =
  example_system_def closed_stdout_system_def moved_system_def example_files_def
  example_backup_def example_parse_def example_to_source_def source_assign_def
  source_nested_def source_broken_def tree_assign_def default_options_def
  source_instrumented_def add_tracer_import_def

lemmas path_defs =
  Path_def Path_cwd_def joinpath_def relative_to_def os_path_def is_absolute_def
  startswith_def PythonInstrumenter_init_def

lemmas file_defs =
  read_text_def write_text_def create_backup_def get_backup_path_def path_exists_def

lemmas run_defs =
  instrument_file_def uninstrument_file_def uninstrument_except_def example_defs path_defs
  file_defs is_instrumented_def
  FunctionWrapper_visit_Module_def FunctionWrapper_init_def except_result_def Let_def

lemma nested_visit:
  "FunctionWrapper_visit_Module Map.empty
     (FunctionWrapper_init Map.empty ''/w/m.py'' default_options) tree_nested =
   (tree_nested_wrapped,
    (FunctionWrapper_init Map.empty ''/w/m.py'' default_options)\<lparr>self_functions_wrapped := 1\<rparr>)"
  by (simp add: FunctionWrapper_visit_Module_def tree_nested_def tree_nested_wrapped_def
      visit_FunctionDef_def should_instrument_def FunctionWrapper_init_def
      get_excluded_functions_def os_getenv_def default_options_def wrap_standard_def
      transform_returns_def visit_Return_def tracer_call_def start_call_def
      create_params_dict_def except_handler_def no_arguments_def Let_def)

lemma run_broken:
  "instrument_file (PythonInstrumenter_init example_system) example_system
     (example_files source_broken) ''/w/m.py'' default_options =
   (except_result (SyntaxError ''invalid syntax''),
    (example_files source_broken)(example_backup \<mapsto> Text source_broken))"
  by (simp add: run_defs)

section \<open>The number of functions wrapped\<close>

lemma should_instrument_counted:
  "should_instrument environ (counted self n) = should_instrument environ self"
  by (rule ext) (simp add: should_instrument_def counted_def)

lemma accepted_counted: "accepted environ (counted self n) names = accepted environ self names"
  by (simp add: accepted_def should_instrument_counted)

lemma accepted_append:
  "accepted environ self (xs @ ys) = accepted environ self xs + accepted environ self ys"
  by (simp add: accepted_def)

lemma accepted_Nil: "accepted environ self [] = 0"
  by (simp add: accepted_def)

lemma counted_counted: "counted (counted self m) n = counted self (m + n)"
  by (simp add: counted_def add.assoc)

lemma counted_0: "counted self 0 = self"
  by (simp add: counted_def)

lemma visit_FunctionDef_counted:
  "snd (visit_FunctionDef environ self name a body decorator_list) =
     counted self (accepted environ self [name])"
  by (simp add: visit_FunctionDef_def accepted_def counted_def Let_def)

lemma visit_AsyncFunctionDef_counted:
  "snd (visit_AsyncFunctionDef environ self name a body decorator_list) =
     counted self (accepted environ self [name])"
  by (simp add: visit_AsyncFunctionDef_def accepted_def counted_def Let_def)

text \<open>
  What the transformer counts: the definitions the policy accepts among those that are not
  inside another definition. Nothing else of the transformer changes on the way.
\<close>

lemma visit_counted:
  "snd (FunctionWrapper_visit environ self s) =
     counted self (accepted environ self (outer_definitions s))"
  "snd (FunctionWrapper_visit_list environ self ss) =
     counted self (accepted environ self (concat (map outer_definitions ss)))"
  "snd (FunctionWrapper_visit_handler environ self h) =
     counted self (accepted environ self (outer_definitions_handler h))"
  "snd (FunctionWrapper_visit_handlers environ self hs) =
     counted self (accepted environ self (concat (map outer_definitions_handler hs)))"
proof (induction environ self s and environ self ss and environ self h and environ self hs
    rule: FunctionWrapper_visit_FunctionWrapper_visit_list_FunctionWrapper_visit_handler_FunctionWrapper_visit_handlers.induct)
qed (auto simp: visit_FunctionDef_counted visit_AsyncFunctionDef_counted add.assoc
    accepted_counted accepted_append accepted_Nil counted_counted counted_0
    split: prod.splits)

lemma wrapped_count_is_outer_definitions:
  "self_functions_wrapped
     (snd (FunctionWrapper_visit_Module environ (FunctionWrapper_init environ file_path opts)
             (Module body))) =
   accepted environ (FunctionWrapper_init environ file_path opts)
     (concat (map outer_definitions body))"
proof -
  let ?self = "FunctionWrapper_init environ file_path opts"
  have "snd (FunctionWrapper_visit_Module environ ?self (Module body)) =
          snd (FunctionWrapper_visit_list environ ?self body)"
    by (simp add: FunctionWrapper_visit_Module_def split: prod.splits)
  also have "\<dots> = counted ?self (accepted environ ?self (concat (map outer_definitions body)))"
    by (rule visit_counted(2))
  finally show ?thesis
    by (simp add: counted_def FunctionWrapper_init_def)
qed

text \<open>
  Claim C2. The claim says that every definition of the file meets the policy, nested ones
  included, and that \<^verbatim>\<open>functions_wrapped\<close> is the number of definitions the policy
  accepts. \<^verbatim>\<open>visit_FunctionDef\<close> returns without visiting the body, so a definition
  inside a function is never reached. For the file
  \<^verbatim>\<open>def outer(): def inner(): return 1; return inner()\<close> and the default options the
  policy accepts both names, \<^verbatim>\<open>get_functions_in_file\<close> lists both, and
  \<^verbatim>\<open>instrument_file\<close> succeeds with \<^verbatim>\<open>functions_wrapped = 1\<close>. With
  \<^verbatim>\<open>functions=['inner']\<close> the policy accepts \<^verbatim>\<open>inner\<close>, and \<^verbatim>\<open>instrument_file\<close>
  succeeds with \<^verbatim>\<open>functions_wrapped = 0\<close>.
\<close>

theorem nested_definition_not_counted:
  "ast_parse example_system source_nested ''/w/m.py'' = Inr tree_nested
   \<and> get_functions_in_file example_system (example_files source_nested) ''/w/m.py'' =
       [''outer'', ''inner'']
   \<and> eligible_definitions (os_environ example_system)
        (FunctionWrapper_init (os_environ example_system) ''/w/m.py'' default_options)
        tree_nested = 2
   \<and> success (fst (instrument_file (PythonInstrumenter_init example_system) example_system
                      (example_files source_nested) ''/w/m.py'' default_options))
   \<and> functions_wrapped
        (fst (instrument_file (PythonInstrumenter_init example_system) example_system
                (example_files source_nested) ''/w/m.py'' default_options)) = 1
   \<and> eligible_definitions (os_environ example_system)
        (FunctionWrapper_init (os_environ example_system) ''/w/m.py'' only_inner)
        tree_nested = 1
   \<and> success (fst (instrument_file (PythonInstrumenter_init example_system) example_system
                      (example_files source_nested) ''/w/m.py'' only_inner))
   \<and> functions_wrapped
        (fst (instrument_file (PythonInstrumenter_init example_system) example_system
                (example_files source_nested) ''/w/m.py'' only_inner)) = 0"
proof -
  have p: "ast_parse example_system source_nested ''/w/m.py'' = Inr tree_nested"
    by (simp add: example_defs)
  have r: "read_text example_system (example_files source_nested) (Path ''/w/m.py'') =
             Inr source_nested"
    by (simp add: example_defs path_defs file_defs)
  have w: "function_names (ast_walk [ModuleNode tree_nested]) = [''outer'', ''inner'']"
    by (simp add: tree_nested_def)
  have g: "get_functions_in_file example_system (example_files source_nested) ''/w/m.py'' =
             [''outer'', ''inner'']"
    by (simp add: get_functions_in_file_def r p) (simp add: tree_nested_def)
  have e: "eligible_definitions (os_environ example_system)
             (FunctionWrapper_init (os_environ example_system) ''/w/m.py'' default_options)
             tree_nested = 2"
    unfolding eligible_definitions_def w
    by (simp add: should_instrument_def FunctionWrapper_init_def get_excluded_functions_def
        os_getenv_def default_options_def example_system_def)
  have e': "eligible_definitions (os_environ example_system)
             (FunctionWrapper_init (os_environ example_system) ''/w/m.py'' only_inner)
             tree_nested = 1"
    unfolding eligible_definitions_def w
    by (simp add: should_instrument_def FunctionWrapper_init_def get_excluded_functions_def
        os_getenv_def default_options_def only_inner_def example_system_def)
  have env: "os_environ example_system = Map.empty"
    by (simp add: example_system_def)
  have b: "create_backup (PythonInstrumenter_init example_system) example_system
             (example_files source_nested) ''/w/m.py'' source_nested =
           Inr (PurePath Slash example_backup,
                (example_files source_nested)(example_backup \<mapsto> Text source_nested))"
    by (simp add: example_defs path_defs file_defs)
  have n: "\<not> is_instrumented source_nested"
    by (simp add: is_instrumented_def source_nested_def startswith_def)
  have s: "astor_to_source example_system tree_nested_wrapped = Inr source_nested_wrapped"
    by (simp add: example_system_def example_to_source_def tree_nested_wrapped_def
        tree_nested_def tree_assign_def)
  have s': "astor_to_source example_system tree_nested = Inr source_nested"
    by (simp add: example_system_def example_to_source_def tree_nested_def tree_assign_def)
  have v': "FunctionWrapper_visit_Module Map.empty
              (FunctionWrapper_init Map.empty ''/w/m.py'' only_inner) tree_nested =
            (tree_nested, FunctionWrapper_init Map.empty ''/w/m.py'' only_inner)"
    by (simp add: FunctionWrapper_visit_Module_def tree_nested_def visit_FunctionDef_def
        should_instrument_def FunctionWrapper_init_def get_excluded_functions_def os_getenv_def
        default_options_def only_inner_def)
  have z: "self_functions_wrapped (FunctionWrapper_init Map.empty ''/w/m.py'' only_inner) = 0"
    by (simp add: FunctionWrapper_init_def)
  have mw: "outcome_of_write example_system q s = Written" for q s
    by (simp add: example_system_def)
  have one: "fst (instrument_file (PythonInstrumenter_init example_system) example_system
               (example_files source_nested) ''/w/m.py'' default_options) =
        \<lparr> success = True, error = None, original_code = Some source_nested,
          instrumented_code = Some (add_tracer_import source_nested_wrapped),
          functions_wrapped = 1, backup_path = PathObj (PurePath Slash example_backup) \<rparr>"
    by (simp add: instrument_file_def r b n p env nested_visit s write_text_def mw Let_def)
  have none: "fst (instrument_file (PythonInstrumenter_init example_system) example_system
               (example_files source_nested) ''/w/m.py'' only_inner) =
        \<lparr> success = True, error = None, original_code = Some source_nested,
          instrumented_code = Some (add_tracer_import source_nested),
          functions_wrapped = 0, backup_path = PathObj (PurePath Slash example_backup) \<rparr>"
    by (simp add: instrument_file_def r b n p env v' z s' write_text_def mw Let_def)
  from p g e e' one none show ?thesis
    by simp
qed

section \<open>Reading text and finding the marker\<close>

lemma universal_newlines_no_CR: "CR \<notin> set (universal_newlines s)"
  by (induction s rule: universal_newlines.induct) auto

lemma universal_newlines_id: "CR \<notin> set s \<Longrightarrow> universal_newlines s = s"
  by (induction s rule: universal_newlines.induct) auto

lemma contains_Nil: "contains [] s"
  by (cases s) (simp_all add: startswith_def)

lemma startswith_Cons:
  "startswith s (x # p) = (case s of [] \<Rightarrow> False | c # cs \<Rightarrow> c = x \<and> startswith cs p)"
  by (cases s) (auto simp: startswith_def)

lemma startswith_Cons_Cons: "startswith (c # s) (x # p) = (c = x \<and> startswith s p)"
  by (simp add: startswith_def)

lemma startswith_Nil: "startswith s []"
  by (simp add: startswith_def)

lemma startswith_universal_newlines:
  assumes "CR \<notin> set p" and "LF \<notin> set p"
  shows "startswith (universal_newlines s) p = startswith s p"
  using assms
proof (induction p arbitrary: s)
  case Nil
  then show ?case by (simp add: startswith_Nil)
next
  case (Cons x p)
  show ?case
  proof (cases s rule: universal_newlines.cases)
    case 1
    then show ?thesis by (simp add: startswith_Cons)
  next
    case (2 c)
    with Cons.prems show ?thesis by (auto simp: startswith_Cons split: list.splits)
  next
    case (3 c d cs)
    with Cons.prems Cons.IH [of "d # cs"] show ?thesis
      by (auto simp: startswith_Cons)
  qed
qed

lemma contains_universal_newlines:
  assumes "CR \<notin> set p" and "LF \<notin> set p"
  shows "contains p (universal_newlines s) = contains p s"
proof (cases "p = []")
  case True
  then show ?thesis by (simp add: contains_Nil)
next
  case False
  then obtain x q where p: "p = x # q" by (cases p) auto
  with assms have x: "x \<noteq> CR" "x \<noteq> LF" by auto
  show ?thesis
  proof (induction s rule: universal_newlines.induct)
    case 1
    then show ?case by simp
  next
    case (2 c)
    with p x show ?case by (auto simp: startswith_Cons)
  next
    case (3 c d cs)
    have sw: "startswith (universal_newlines (d # cs)) q = startswith (d # cs) q"
      using assms p by (intro startswith_universal_newlines) auto
    show ?case
    proof (cases "c = CR")
      case True
      with 3 p x show ?thesis by (auto simp: startswith_Cons)
    next
      case False
      have "contains p (universal_newlines (c # d # cs)) =
              (startswith (c # universal_newlines (d # cs)) p \<or>
               contains p (universal_newlines (d # cs)))"
        using False by simp
      also have "\<dots> = (startswith (c # d # cs) p \<or> contains p (d # cs))"
        using 3(3) [OF False] sw p by (simp only: startswith_Cons_Cons)
      also have "\<dots> = contains p (c # d # cs)"
        by simp
      finally show ?thesis .
    qed
  qed
qed

lemma is_instrumented_universal_newlines:
  "is_instrumented (universal_newlines s) = is_instrumented s"
  by (simp add: is_instrumented_def contains_universal_newlines)

section \<open>Snapshots\<close>

lemma backup_dir_init:
  "backup_dir (PythonInstrumenter_init sys) =
     PurePath Slash (cwd sys @ [''.ai-agents'', ''logging'', ''backups'', ''original''])"
  by (simp add: PythonInstrumenter_init_def joinpath_def Path_def Path_cwd_def startswith_def
      is_absolute_def)

lemma write_text_returns:
  assumes "write_text sys fs p s = Inr fs'"
  shows "fs' = fs(os_path sys p \<mapsto> Text s)"
  using assms by (auto simp: write_text_def split: write_outcome.splits)

lemma write_text_raises:
  assumes "write_text sys fs p s = Inl (e, fs')"
  shows "fs' = fs \<or> (\<exists>left. fs' = fs(os_path sys p \<mapsto> left))"
  using assms by (auto simp: write_text_def split: write_outcome.splits)

text \<open>
  A snapshot that returns has written the text to the file that the backup path names, and
  nothing else. A snapshot that raises has written nothing, or has left something at the
  backup path.
\<close>

lemma snapshot_returns:
  assumes "create_backup self sys fs file_path content = Inr (backup, fsb)"
  shows "get_backup_path self sys file_path = Inr backup"
    and "fsb = fs(os_path sys backup \<mapsto> Text content)"
  using assms
  by (auto simp: create_backup_def get_backup_path_def write_text_def Let_def
      split: sum.splits write_outcome.splits)

lemma snapshot_raises:
  assumes "create_backup self sys fs file_path content = Inl (e, fsb)"
  shows "fsb = fs \<or>
         (\<exists>backup left. get_backup_path self sys file_path = Inr backup \<and>
            fsb = fs(os_path sys backup \<mapsto> left))"
  using assms
  by (auto simp: create_backup_def get_backup_path_def write_text_def Let_def
      split: sum.splits write_outcome.splits)

section \<open>The outcomes of instrumenting a file\<close>

lemma except_result_simps:
  "\<not> success (except_result e)"
  "error (except_result e) = Some (StrOf e)"
  "original_code (except_result e) = None"
  "instrumented_code (except_result e) = None"
  "functions_wrapped (except_result e) = 0"
  "backup_path (except_result e) = StrObj []"
  by (simp_all add: except_result_def)

text \<open>
  Every run of \<^verbatim>\<open>instrument_file\<close> ends in one of six ways: the read fails, the snapshot
  fails, the guard against a second instrumentation fires, the parser or the emitter fails,
  the write of the file fails, or the file is rewritten.
\<close>

lemma instrument_file_cases:
  assumes run: "instrument_file self sys fs file_path opts = (r, fs')"
  shows "(\<exists>e. read_text sys fs (Path file_path) = Inl e \<and> r = except_result e \<and> fs' = fs)
       \<or> (\<exists>code e. read_text sys fs (Path file_path) = Inr code
              \<and> create_backup self sys fs file_path code = Inl (e, fs') \<and> r = except_result e)
       \<or> (\<exists>code backup fsb. read_text sys fs (Path file_path) = Inr code
              \<and> create_backup self sys fs file_path code = Inr (backup, fsb)
              \<and> ((is_instrumented code \<and> \<not> success r \<and> functions_wrapped r = 0
                     \<and> backup_path r = PathObj backup
                     \<and> error r = Some (Literal ''File is already instrumented. Use uninstrument first.'')
                     \<and> original_code r = None \<and> instrumented_code r = None \<and> fs' = fsb)
                 \<or> (\<not> is_instrumented code \<and> (\<exists>e. r = except_result e) \<and> fs' = fsb)
                 \<or> (\<not> is_instrumented code
                     \<and> (\<exists>e instrumented.
                            write_text sys fsb (Path file_path) instrumented = Inl (e, fs')
                            \<and> r = except_result e))
                 \<or> (\<not> is_instrumented code \<and> success r \<and> error r = None
                     \<and> original_code r = Some code \<and> backup_path r = PathObj backup
                     \<and> (\<exists>tree emitted.
                            ast_parse sys code file_path = Inr tree
                            \<and> astor_to_source sys
                                 (fst (FunctionWrapper_visit_Module (os_environ sys)
                                         (FunctionWrapper_init (os_environ sys) file_path opts) tree))
                               = Inr emitted
                            \<and> instrumented_code r = Some (add_tracer_import emitted)
                            \<and> fs' = fsb(os_path sys (Path file_path) \<mapsto>
                                          Text (add_tracer_import emitted))))))"
proof (cases "read_text sys fs (Path file_path)")
  case (Inl e)
  with run show ?thesis by (simp add: instrument_file_def)
next
  case read: (Inr code)
  show ?thesis
  proof (cases "create_backup self sys fs file_path code")
    case (Inl p)
    with run read show ?thesis by (cases p) (auto simp: instrument_file_def)
  next
    case (Inr p)
    obtain backup fsb where p: "p = (backup, fsb)" by (cases p)
    show ?thesis
    proof (cases "is_instrumented code")
      case True
      with run read Inr p show ?thesis by (auto simp: instrument_file_def)
    next
      case False
      with run read Inr p show ?thesis
        by (auto simp: instrument_file_def Let_def split: sum.splits prod.splits
            dest: write_text_returns)
    qed
  qed
qed

text \<open>
  The dictionary of \<^verbatim>\<open>instrument_file\<close> is either a success with both texts and no error,
  or a failure with an error, no text and \<^verbatim>\<open>functions_wrapped = 0\<close>.
\<close>

lemma result_shape:
  assumes run: "instrument_file self sys fs file_path opts = (r, fs')"
  shows "if success r
         then error r = None \<and> original_code r \<noteq> None \<and> instrumented_code r \<noteq> None
         else error r \<noteq> None \<and> original_code r = None \<and> instrumented_code r = None
              \<and> functions_wrapped r = 0"
  using instrument_file_cases [OF run] by (auto simp: except_result_simps)

text \<open>
  When the parser or the emitter raises after the snapshot, the snapshot is the only write of
  the call. The file to instrument then keeps its content if the backup path names another
  file, and also if the file had no carriage return.
\<close>

lemma failure_after_snapshot:
  assumes run: "instrument_file self sys fs file_path opts = (r, fs')"
    and read: "read_text sys fs (Path file_path) = Inr code"
    and snap: "create_backup self sys fs file_path code = Inr (backup, fsb)"
    and clean: "\<not> is_instrumented code"
    and raised: "ast_parse sys code file_path = Inl e \<or>
                 (\<exists>tree. ast_parse sys code file_path = Inr tree \<and>
                    astor_to_source sys
                      (fst (FunctionWrapper_visit_Module (os_environ sys)
                              (FunctionWrapper_init (os_environ sys) file_path opts) tree)) = Inl e)"
  shows "r = except_result e"
    and "fs' = fs(os_path sys backup \<mapsto> Text code)"
    and "os_path sys backup \<noteq> os_path sys (Path file_path) \<Longrightarrow>
           fs' (os_path sys (Path file_path)) = fs (os_path sys (Path file_path))"
    and "fs (os_path sys (Path file_path)) = Some (Text content) \<Longrightarrow> CR \<notin> set content \<Longrightarrow>
           fs' (os_path sys (Path file_path)) = fs (os_path sys (Path file_path))"
proof -
  from run read snap clean raised have res: "r = except_result e \<and> fs' = fsb"
    by (auto simp: instrument_file_def Let_def split: prod.splits)
  then show "r = except_result e" by simp
  from res snapshot_returns(2) [OF snap] show w: "fs' = fs(os_path sys backup \<mapsto> Text code)"
    by simp
  show "fs' (os_path sys (Path file_path)) = fs (os_path sys (Path file_path))"
    if "os_path sys backup \<noteq> os_path sys (Path file_path)"
    using that w by simp
  show "fs' (os_path sys (Path file_path)) = fs (os_path sys (Path file_path))"
    if "fs (os_path sys (Path file_path)) = Some (Text content)" and "CR \<notin> set content"
  proof -
    from that read have "code = content"
      by (simp add: read_text_def universal_newlines_id)
    with that w show ?thesis by simp
  qed
qed

text \<open>
  Claim C8. The claim says that a call of \<^verbatim>\<open>instrument_file\<close> that fails in the parser,
  the rewriting or the emitter leaves the content of the file as it was. The snapshot is
  written before the parser runs, to \<^verbatim>\<open>self.backup_dir / relative_path\<close>, and nothing
  checks that this is another file than the one to instrument. Two calls in which it is the
  same file, which holds \<^verbatim>\<open>def f(:\<close> with the line ending \<^verbatim>\<open>\r\n\<close>: an instrumenter
  built in \<^verbatim>\<open>/w\<close> and called in the directory of its backups for the file
  \<^verbatim>\<open>m.py\<close> there; and an instrumenter built and called in \<^verbatim>\<open>/w\<close> for
  \<^verbatim>\<open>/w/x/../../../../../../w/m.py\<close>. In both the parser raises, the result is the
  failure dictionary of the syntax error, and the file holds \<^verbatim>\<open>def f(:\<close> with the line
  ending \<^verbatim>\<open>\n\<close> afterwards.
\<close>

theorem snapshot_overwrites_target_before_parser_raises:
  "ast_parse moved_system (''def f(:'' @ [LF]) ''/w/.ai-agents/logging/backups/original/m.py'' =
     Inl (SyntaxError ''invalid syntax'')
   \<and> instrument_file (PythonInstrumenter_init example_system) moved_system
        [example_backup \<mapsto> Text (''def f(:'' @ [CR, LF])]
        ''/w/.ai-agents/logging/backups/original/m.py'' default_options =
       (\<lparr> success = False, error = Some (StrOf (SyntaxError ''invalid syntax'')),
          original_code = None, instrumented_code = None, functions_wrapped = 0,
          backup_path = StrObj '''' \<rparr>,
        [example_backup \<mapsto> Text (''def f(:'' @ [LF])])
   \<and> os_path example_system (Path ''/w/x/../../../../../../w/m.py'') = [''w'', ''m.py'']
   \<and> ast_parse example_system (''def f(:'' @ [LF]) ''/w/x/../../../../../../w/m.py'' =
       Inl (SyntaxError ''invalid syntax'')
   \<and> instrument_file (PythonInstrumenter_init example_system) example_system
        [[''w'', ''m.py''] \<mapsto> Text (''def f(:'' @ [CR, LF])]
        ''/w/x/../../../../../../w/m.py'' default_options =
       (\<lparr> success = False, error = Some (StrOf (SyntaxError ''invalid syntax'')),
          original_code = None, instrumented_code = None, functions_wrapped = 0,
          backup_path = StrObj '''' \<rparr>,
        [[''w'', ''m.py''] \<mapsto> Text (''def f(:'' @ [LF])])"
  by (simp add: run_defs)

text \<open>
  Claim C10. A run of \<^verbatim>\<open>instrument_file\<close> that fails, and does not fail at the guard
  against a second instrumentation (the guard is reached when the read and the snapshot have
  succeeded, and fires when the text read holds the marker), returns the empty string under
  \<^verbatim>\<open>backup_path\<close>. This holds also when the snapshot is already on disk, as after a
  syntax error.
\<close>

theorem failure_has_empty_backup_path:
  assumes run: "instrument_file self sys fs file_path opts = (r, fs')"
    and fail: "\<not> success r"
    and other: "\<And>code backup fsb.
                  read_text sys fs (Path file_path) = Inr code \<Longrightarrow>
                  create_backup self sys fs file_path code = Inr (backup, fsb) \<Longrightarrow>
                  \<not> is_instrumented code"
  shows "backup_path r = StrObj ''''"
  using instrument_file_cases [OF run] fail other
  by (auto simp: except_result_simps)

theorem failure_has_empty_backup_path_witness:
  "\<not> success (fst (instrument_file (PythonInstrumenter_init example_system) example_system
             (example_files source_broken) ''/w/m.py'' default_options))
   \<and> read_text example_system (example_files source_broken) (Path ''/w/m.py'') = Inr source_broken
   \<and> \<not> is_instrumented source_broken
   \<and> backup_path (fst (instrument_file (PythonInstrumenter_init example_system) example_system
             (example_files source_broken) ''/w/m.py'' default_options)) = StrObj ''''
   \<and> snd (instrument_file (PythonInstrumenter_init example_system) example_system
             (example_files source_broken) ''/w/m.py'' default_options) example_backup =
       Some (Text source_broken)"
proof -
  have a: "\<not> success (except_result (SyntaxError ''invalid syntax''))"
    by (simp add: except_result_def)
  have b: "\<And>code backup fsb.
      read_text example_system (example_files source_broken) (Path ''/w/m.py'') = Inr code \<Longrightarrow>
      create_backup (PythonInstrumenter_init example_system) example_system
        (example_files source_broken) ''/w/m.py'' code = Inr (backup, fsb) \<Longrightarrow>
      \<not> is_instrumented code"
    by (auto simp: run_defs)
  from failure_has_empty_backup_path [OF run_broken a b]
  show ?thesis
    by (simp add: run_broken) (simp add: run_defs)
qed

text \<open>
  When the read and the snapshot have succeeded and the text read holds the marker, the
  result is the failure of the guard with the path of the snapshot, and the snapshot is the
  only write.
\<close>

lemma guard_result:
  assumes "read_text sys fs (Path file_path) = Inr code"
    and "create_backup self sys fs file_path code = Inr (backup, fsb)"
    and "is_instrumented code"
  shows "instrument_file self sys fs file_path opts =
           (\<lparr> success = False,
              error = Some (Literal ''File is already instrumented. Use uninstrument first.''),
              original_code = None, instrumented_code = None, functions_wrapped = 0,
              backup_path = PathObj backup \<rparr>,
            fs(os_path sys backup \<mapsto> Text code))"
  using assms snapshot_returns(2) [OF assms(2)] by (simp add: instrument_file_def)

text \<open>
  Claim C4. The claim says that for every readable file that holds the marker
  \<^verbatim>\<open>instrument_file\<close> returns a failure with \<^verbatim>\<open>functions_wrapped = 0\<close> and the path of
  the snapshot just taken under \<^verbatim>\<open>backup_path\<close>. The snapshot is taken at
  \<^verbatim>\<open>Path(file_path).relative_to(Path.cwd())\<close>, which raises \<^verbatim>\<open>ValueError\<close> for every
  relative path, although \<^verbatim>\<open>open(file_path)\<close> has just read the file. In the directory
  \<^verbatim>\<open>/w\<close> the file \<^verbatim>\<open>/w/m.py\<close>, which holds the tracer import, is read under the names
  \<^verbatim>\<open>m.py\<close> and \<^verbatim>\<open>//w/m.py\<close>: no snapshot is taken, and the result is the failure
  dictionary of the \<^verbatim>\<open>ValueError\<close> with the empty string under \<^verbatim>\<open>backup_path\<close>.
  Under the name \<^verbatim>\<open>/w/m.py\<close> the same file gets the snapshot and its path.
\<close>

theorem relative_path_gets_no_snapshot:
  "is_instrumented source_instrumented
   \<and> read_text example_system (example_files source_instrumented) (Path ''m.py'') =
       Inr source_instrumented
   \<and> instrument_file (PythonInstrumenter_init example_system) example_system
        (example_files source_instrumented) ''m.py'' default_options =
       (\<lparr> success = False, error = Some (StrOf ValueError),
          original_code = None, instrumented_code = None, functions_wrapped = 0,
          backup_path = StrObj '''' \<rparr>,
        example_files source_instrumented)
   \<and> read_text example_system (example_files source_instrumented) (Path ''//w/m.py'') =
       Inr source_instrumented
   \<and> instrument_file (PythonInstrumenter_init example_system) example_system
        (example_files source_instrumented) ''//w/m.py'' default_options =
       (\<lparr> success = False, error = Some (StrOf ValueError),
          original_code = None, instrumented_code = None, functions_wrapped = 0,
          backup_path = StrObj '''' \<rparr>,
        example_files source_instrumented)
   \<and> instrument_file (PythonInstrumenter_init example_system) example_system
        (example_files source_instrumented) ''/w/m.py'' default_options =
       (\<lparr> success = False,
          error = Some (Literal ''File is already instrumented. Use uninstrument first.''),
          original_code = None, instrumented_code = None, functions_wrapped = 0,
          backup_path =
            PathObj (PurePath Slash
              [''w'', ''.ai-agents'', ''logging'', ''backups'', ''original'', ''m.py'']) \<rparr>,
        (example_files source_instrumented)
          ([''w'', ''.ai-agents'', ''logging'', ''backups'', ''original'', ''m.py''] \<mapsto>
             Text source_instrumented))"
  by (simp add: run_defs)

section \<open>Exceptions that leave the methods\<close>

text \<open>
  \<^verbatim>\<open>uninstrument_file\<close> returns a boolean whenever \<^verbatim>\<open>print\<close> does not raise, and a call
  that finds no backup returns \<^verbatim>\<open>False\<close> without printing.
\<close>

lemma uninstrument_file_returns:
  assumes "\<And>message e. stdout_print sys message e = None"
  shows "\<exists>b. fst (uninstrument_file self sys fs file_path restore) = Inr b"
  using assms
  by (auto simp: uninstrument_file_def uninstrument_except_def Let_def
      split: sum.splits prod.splits)

lemma no_backup_is_False:
  assumes "get_backup_path self sys file_path = Inr backup"
    and "\<not> path_exists sys fs backup"
  shows "uninstrument_file self sys fs file_path True = (Inr False, fs)"
  using assms by (simp add: uninstrument_file_def)

text \<open>
  Claim C9. The claim says that neither method ever lets an exception reach its caller.
  \<^verbatim>\<open>instrument_file\<close> builds its failure dictionary in the \<^verbatim>\<open>except\<close> clause and
  returns it. The \<^verbatim>\<open>except\<close> clause of \<^verbatim>\<open>uninstrument_file\<close> calls \<^verbatim>\<open>print\<close> first, and
  an exception raised there leaves the method. With the standard output closed:
  \<^verbatim>\<open>uninstrument_file('/w/m.py', restore=False)\<close> for a file that does not exist catches
  \<^verbatim>\<open>FileNotFoundError\<close>, and \<^verbatim>\<open>uninstrument_file('m.py')\<close> catches the \<^verbatim>\<open>ValueError\<close>
  of \<^verbatim>\<open>relative_to\<close>; in both the \<^verbatim>\<open>ValueError\<close> of \<^verbatim>\<open>print\<close> reaches the caller.
  With the standard output open both calls return \<^verbatim>\<open>False\<close>, and on the same inputs
  \<^verbatim>\<open>instrument_file\<close> returns its failure dictionary.
\<close>

theorem print_in_handler_raises:
  "read_text closed_stdout_system Map.empty (Path ''/w/m.py'') = Inl FileNotFoundError
   \<and> stdout_print closed_stdout_system ''[Instrumenter] Failed to uninstrument: ''
        FileNotFoundError = Some ValueError
   \<and> uninstrument_file (PythonInstrumenter_init closed_stdout_system) closed_stdout_system
        Map.empty ''/w/m.py'' False = (Inl ValueError, Map.empty)
   \<and> get_backup_path (PythonInstrumenter_init closed_stdout_system) closed_stdout_system
        ''m.py'' = Inl ValueError
   \<and> uninstrument_file (PythonInstrumenter_init closed_stdout_system) closed_stdout_system
        (example_files source_assign) ''m.py'' True = (Inl ValueError, example_files source_assign)
   \<and> uninstrument_file (PythonInstrumenter_init example_system) example_system
        Map.empty ''/w/m.py'' False = (Inr False, Map.empty)
   \<and> uninstrument_file (PythonInstrumenter_init example_system) example_system
        (example_files source_assign) ''m.py'' True = (Inr False, example_files source_assign)
   \<and> instrument_file (PythonInstrumenter_init closed_stdout_system) closed_stdout_system
        Map.empty ''/w/m.py'' default_options =
       (\<lparr> success = False, error = Some (StrOf FileNotFoundError),
          original_code = None, instrumented_code = None, functions_wrapped = 0,
          backup_path = StrObj '''' \<rparr>,
        Map.empty)"
  by (simp add: run_defs)

section \<open>Restoring the snapshot\<close>

lemma restore_step:
  assumes "get_backup_path self sys file_path = Inr backup"
    and "fsx (os_path sys backup) = Some (Text code)"
    and "CR \<notin> set code"
    and "outcome_of_write sys (os_path sys (Path file_path)) code = Written"
  shows "uninstrument_file self sys fsx file_path True =
           (Inr True, fsx(os_path sys (Path file_path) \<mapsto> Text code))"
  using assms
  by (simp add: uninstrument_file_def path_exists_def read_text_def write_text_def
      universal_newlines_id)

text \<open>
  Let \<^verbatim>\<open>instrument_file\<close> run on a text file and let the snapshot succeed, at a path that
  names another file. If the write of the text read completes, restoring afterwards returns
  \<^verbatim>\<open>True\<close> and leaves in the file the text that \<^verbatim>\<open>instrument_file\<close> had read, which is
  the old content if that had no carriage return. The backup stays where it is with the same
  text, and restoring once more returns \<^verbatim>\<open>True\<close> and changes nothing.
\<close>

lemma restore_after_instrument:
  assumes stored: "fs (os_path sys (Path file_path)) = Some (Text original)"
    and snap: "create_backup self sys fs file_path (universal_newlines original) =
                 Inr (backup, fsb)"
    and apart: "os_path sys backup \<noteq> os_path sys (Path file_path)"
    and run: "instrument_file self sys fs file_path opts = (r, fs1)"
    and w: "outcome_of_write sys (os_path sys (Path file_path)) (universal_newlines original) =
              Written"
  shows "\<exists>fs2. uninstrument_file self sys fs1 file_path True = (Inr True, fs2)
           \<and> fs2 (os_path sys (Path file_path)) = Some (Text (universal_newlines original))
           \<and> (CR \<notin> set original \<longrightarrow>
                fs2 (os_path sys (Path file_path)) = fs (os_path sys (Path file_path)))
           \<and> fs2 (os_path sys backup) = Some (Text (universal_newlines original))
           \<and> uninstrument_file self sys fs2 file_path True = (Inr True, fs2)"
proof -
  let ?t = "os_path sys (Path file_path)"
  let ?code = "universal_newlines original"
  have read: "read_text sys fs (Path file_path) = Inr ?code"
    using stored by (simp add: read_text_def)
  note sf = snapshot_returns [OF snap]
  have kept: "fsb (os_path sys backup) = Some (Text ?code)"
    using sf(2) by simp
  have b1: "fs1 (os_path sys backup) = Some (Text ?code)"
    using instrument_file_cases [OF run] read snap apart kept
    by (auto dest: write_text_raises)
  let ?fs2 = "fs1(?t \<mapsto> Text ?code)"
  have r1: "uninstrument_file self sys fs1 file_path True = (Inr True, ?fs2)"
    by (rule restore_step [where fsx = fs1, OF sf(1) b1 universal_newlines_no_CR [of original] w])
  have b2: "?fs2 (os_path sys backup) = Some (Text ?code)"
    using b1 apart by simp
  have "uninstrument_file self sys ?fs2 file_path True = (Inr True, ?fs2(?t \<mapsto> Text ?code))"
    by (rule restore_step
          [where fsx = "?fs2", OF sf(1) b2 universal_newlines_no_CR [of original] w])
  then have r2: "uninstrument_file self sys ?fs2 file_path True = (Inr True, ?fs2)"
    by simp
  have "CR \<notin> set original \<longrightarrow> ?fs2 ?t = fs ?t"
    using stored by (simp add: universal_newlines_id)
  with r1 r2 b2 show ?thesis
    by (intro exI [of _ ?fs2]) simp
qed

text \<open>
  Claim C3. The claim says that \<^verbatim>\<open>instrument_file\<close> followed by a restore leaves in the
  file the bytes it held before. Both methods open the files in text mode, where reading
  turns \<^verbatim>\<open>\r\n\<close> and \<^verbatim>\<open>\r\<close> into \<^verbatim>\<open>\n\<close>: the snapshot of the file \<^verbatim>\<open>/w/m.py\<close> that
  holds \<^verbatim>\<open>x = 1\<close> with the line ending \<^verbatim>\<open>\r\n\<close> holds the line ending \<^verbatim>\<open>\n\<close>, and so
  does the file after \<^verbatim>\<open>instrument_file\<close> and the restore, which both report success.
  And the snapshot of \<^verbatim>\<open>/w/x/../../../../../../w/m.py\<close> is written to that file itself:
  \<^verbatim>\<open>instrument_file\<close> and the restore report success, and the file holds the instrumented
  text afterwards.
\<close>

theorem restore_is_not_byte_identical:
  "success (fst (instrument_file (PythonInstrumenter_init example_system) example_system
             [[''w'', ''m.py''] \<mapsto> Text (''x = 1'' @ [CR, LF])] ''/w/m.py'' default_options))
   \<and> uninstrument_file (PythonInstrumenter_init example_system) example_system
        (snd (instrument_file (PythonInstrumenter_init example_system) example_system
                [[''w'', ''m.py''] \<mapsto> Text (''x = 1'' @ [CR, LF])] ''/w/m.py'' default_options))
        ''/w/m.py'' True =
       (Inr True,
        [[''w'', ''.ai-agents'', ''logging'', ''backups'', ''original'', ''m.py''] \<mapsto>
           Text (''x = 1'' @ [LF]),
         [''w'', ''m.py''] \<mapsto> Text (''x = 1'' @ [LF])])
   \<and> success (fst (instrument_file (PythonInstrumenter_init example_system) example_system
             [[''w'', ''m.py''] \<mapsto> Text (''x = 1'' @ [LF])]
             ''/w/x/../../../../../../w/m.py'' default_options))
   \<and> uninstrument_file (PythonInstrumenter_init example_system) example_system
        (snd (instrument_file (PythonInstrumenter_init example_system) example_system
                [[''w'', ''m.py''] \<mapsto> Text (''x = 1'' @ [LF])]
                ''/w/x/../../../../../../w/m.py'' default_options))
        ''/w/x/../../../../../../w/m.py'' True =
       (Inr True,
        [[''w'', ''m.py''] \<mapsto>
           Text (''from .ai_agents.logging.runtime.tracer import __tracer'' @ [LF, LF] @
                 ''x = 1'' @ [LF])])"
  by (simp add: run_defs)

end
